theory Spec2Isabelle
  imports Complex_Main "HOL-Library.Sublist"
begin

section \<open>Data model\<close>

text \<open>
  The script \<^verbatim>\<open>data_visualization.py\<close> is a sequence of calls into pandas, matplotlib,
  seaborn, scikit-learn and the Python built-ins. The embedding keeps what the script
  itself decides (its branches, its exception handler, the order and the arguments of its
  calls, and where an exception leaves a function) and records every library call that
  returned as an event; the part of each library call that feeds a decision of the script
  (\<^verbatim>\<open>os.path.exists\<close>, \<^verbatim>\<open>pd.read_csv\<close>, \<^verbatim>\<open>select_dtypes\<close>, \<^verbatim>\<open>dropna\<close>, \<^verbatim>\<open>empty\<close>, column
  assignment and removal) is computed.

  A Python \<^verbatim>\<open>str\<close> is modelled by its UTF-8 encoding, a \<open>string\<close> of bytes.

  A pandas column has a label, a dtype and its values. Only the dtype classes that
  \<^verbatim>\<open>select_dtypes\<close> is asked for in the script are told apart: \<^verbatim>\<open>"number"\<close>,
  \<^verbatim>\<open>"object"\<close>, \<^verbatim>\<open>"category"\<close>, and everything else (bool, datetime, ...).
  A missing value (NaN, None, NaT) is the cell \<open>Null\<close>; the floating-point infinities,
  which pandas does not count as missing, are \<open>PosInf\<close> and \<open>NegInf\<close>.
\<close>

datatype dtype_kind = Number | Object | Category | Other

datatype cell = Null | IntV int | FloatV real | PosInf | NegInf | StrV string

record column =
  name :: string
  dtype :: dtype_kind
  cells :: "cell list"

record frame =
  index :: "nat list"
  columns :: "column list"

text \<open>The \<^verbatim>\<open>Bunch\<close> that \<^verbatim>\<open>sklearn.datasets.load_iris(as_frame=True)\<close> returns: of its
  attributes the script reads \<^verbatim>\<open>frame\<close> and \<^verbatim>\<open>target_names\<close>.\<close>

record bunch =
  frame :: frame
  target_names :: "string list"

text \<open>
  The exceptions that the modelled calls raise, each with the text that \<^verbatim>\<open>str(e)\<close> gives.
  All of them are subclasses of Python's \<^verbatim>\<open>Exception\<close>, so the handler
  \<^verbatim>\<open>except Exception as e\<close> of \<^verbatim>\<open>load_dataset\<close> catches each of them. \<open>CsvError\<close> stands for
  whatever \<^verbatim>\<open>pd.read_csv\<close> raises on a path that exists (a directory, an empty or malformed
  file, a file that cannot be decoded), \<open>OtherError\<close> for an exception of any other class,
  by the name of its class. Asynchronous interrupts (\<^verbatim>\<open>KeyboardInterrupt\<close>) are not
  modelled.
\<close>

datatype py_exception =
    EOFError
  | FileNotFoundError string
  | KeyError string
  | IndexError string
  | ValueError string
  | CsvError string
  | OtherError string string

text \<open>\<^verbatim>\<open>str(e)\<close>, as the f-string \<^verbatim>\<open>{e}\<close> formats an exception.\<close>

fun str_exception :: "py_exception \<Rightarrow> string" where
  "str_exception EOFError = ''EOF when reading a line''"
| "str_exception (FileNotFoundError p) = ''[Errno 2] No such file or directory: '' @ [CHR 0x27] @ p @ [CHR 0x27]"
| "str_exception (KeyError k) = [CHR 0x27] @ k @ [CHR 0x27]"
| "str_exception (IndexError m) = m"
| "str_exception (ValueError m) = m"
| "str_exception (CsvError m) = m"
| "str_exception (OtherError c m) = m"

subsection \<open>Library calls as events\<close>

text \<open>
  The calls into \<^verbatim>\<open>matplotlib.pyplot\<close> and \<^verbatim>\<open>seaborn\<close>, with the arguments the script
  passes: \<open>Plot x y label color\<close>, \<open>Hist x bins color edgecolor\<close>,
  \<open>Barplot x y data estimator palette\<close>, \<open>Scatterplot x y hue data palette\<close>,
  \<open>Legend title\<close>, \<open>Figure w h\<close> for \<^verbatim>\<open>figsize=(w, h)\<close>.
\<close>

datatype plt_call =
    Figure nat nat
  | Plot "nat list" "cell list" string string
  | Barplot string string frame string string
  | Hist "cell list" nat string string
  | Scatterplot string string "string option" frame string
  | Title string
  | Xlabel string
  | Ylabel string
  | Legend "string option"
  | Tight_layout
  | Show

text \<open>
  Everything the script does to the world outside its own variables, in the order it
  does it. \<open>Print s\<close> is \<^verbatim>\<open>print\<close> of a string. A \<^verbatim>\<open>print\<close> of a pandas object carries
  the object instead of its rendering: \<open>PrintHead\<close> is \<^verbatim>\<open>print(df.head())\<close>, \<open>PrintDtypes\<close>
  is \<^verbatim>\<open>print(df.dtypes)\<close>, \<open>PrintNullCounts\<close> is \<^verbatim>\<open>print(df.isnull().sum())\<close>.
  \<open>PrintDescribe df\<close> is \<^verbatim>\<open>print(df.describe())\<close> and \<open>PrintGroupMean g df\<close> is
  \<^verbatim>\<open>print(df.groupby(g).mean(numeric_only=True))\<close>: their statistics are floating-point
  computations of pandas and are left uncomputed. \<open>Input p\<close> is the call \<^verbatim>\<open>input(p)\<close>,
  \<open>PathExists\<close>, \<open>ReadCsv\<close> and \<open>LoadIris\<close> are the calls of \<^verbatim>\<open>os.path.exists\<close>,
  \<^verbatim>\<open>pd.read_csv\<close> and \<^verbatim>\<open>load_iris\<close>.
\<close>

datatype event =
    Print string
  | PrintHead frame
  | PrintDtypes "(string \<times> dtype_kind) list"
  | PrintNullCounts "(string \<times> nat) list"
  | PrintDescribe frame
  | PrintGroupMean string frame
  | Input string
  | PathExists string
  | ReadCsv string
  | LoadIris
  | Plt plt_call

text \<open>
  The world a run happens in: the lines still to be read from standard input, the file
  system as the script sees it (a path that does not exist is \<open>None\<close>; a path that exists
  is mapped to what \<^verbatim>\<open>pd.read_csv\<close> does on it: the dataframe it returns or the exception
  it raises), the Iris data bundled with scikit-learn, and the events so far.

  \<open>raises\<close> is how pandas, matplotlib and seaborn answer the calls that compute
  statistics or draw: given the events so far and the call, the exception that the call
  raises, or \<open>None\<close> when it returns. Whether \<^verbatim>\<open>plt.hist\<close> accepts its data or
  \<^verbatim>\<open>plt.tight_layout\<close> can lay out the labels set before it is decided inside these
  libraries, on floating-point values and rendered text; the script decides only what
  happens next, and that is what the model keeps.
\<close>

record world =
  stdin :: "string list"
  files :: "string \<rightharpoonup> py_exception + frame"
  sklearn_iris :: bunch
  raises :: "event list \<Rightarrow> event \<Rightarrow> py_exception option"
  trace :: "event list"

section \<open>Built-ins and library calls\<close>

definition emit :: "event \<Rightarrow> world \<Rightarrow> world" where
  "emit e w = w\<lparr>trace := trace w @ [e]\<rparr>"

definition print_str :: "string \<Rightarrow> world \<Rightarrow> world" where
  "print_str s w = emit (Print s) w"

text \<open>A call of pandas, pyplot or seaborn that may raise: when it returns it is an event,
  when it raises the exception is the result and nothing is recorded.\<close>

definition lib_call :: "event \<Rightarrow> world \<Rightarrow> (py_exception + unit) \<times> world" where
  "lib_call e w =
     (case raises w (trace w) e of
        None \<Rightarrow> (Inr (), emit e w)
      | Some x \<Rightarrow> (Inl x, w))"

text \<open>\<^verbatim>\<open>input(prompt)\<close> writes the prompt and reads one line; at end of file it raises
  \<^verbatim>\<open>EOFError\<close>.\<close>

definition input_line :: "string \<Rightarrow> world \<Rightarrow> (py_exception + string) \<times> world" where
  "input_line prompt w =
     (case stdin w of
        [] \<Rightarrow> (Inl EOFError, emit (Input prompt) w)
      | l # ls \<Rightarrow> (Inr l, emit (Input prompt) (w\<lparr>stdin := ls\<rparr>)))"

text \<open>
  \<^verbatim>\<open>str.strip()\<close> removes the leading and the trailing whitespace characters, which are the
  characters that \<^verbatim>\<open>str.isspace\<close> accepts: U+0009 to U+000D, U+001C to U+001F, U+0020,
  U+0085, U+00A0, U+1680, U+2000 to U+200A, U+2028, U+2029, U+202F, U+205F and U+3000.
  \<open>whitespace\<close> lists their UTF-8 encodings. No encoding of a character ends or begins
  inside the encoding of another, so a string begins (ends) with a whitespace character
  exactly when it begins (ends) with one of these byte sequences.
\<close>

definition whitespace :: "string list" where
  "whitespace =
     [[CHR 0x09], [CHR 0x0A], [CHR 0x0B], [CHR 0x0C], [CHR 0x0D],
      [CHR 0x1C], [CHR 0x1D], [CHR 0x1E], [CHR 0x1F], [CHR 0x20],
      [CHR 0xC2, CHR 0x85], [CHR 0xC2, CHR 0xA0],
      [CHR 0xE1, CHR 0x9A, CHR 0x80],
      [CHR 0xE2, CHR 0x80, CHR 0x80], [CHR 0xE2, CHR 0x80, CHR 0x81],
      [CHR 0xE2, CHR 0x80, CHR 0x82], [CHR 0xE2, CHR 0x80, CHR 0x83],
      [CHR 0xE2, CHR 0x80, CHR 0x84], [CHR 0xE2, CHR 0x80, CHR 0x85],
      [CHR 0xE2, CHR 0x80, CHR 0x86], [CHR 0xE2, CHR 0x80, CHR 0x87],
      [CHR 0xE2, CHR 0x80, CHR 0x88], [CHR 0xE2, CHR 0x80, CHR 0x89],
      [CHR 0xE2, CHR 0x80, CHR 0x8A],
      [CHR 0xE2, CHR 0x80, CHR 0xA8], [CHR 0xE2, CHR 0x80, CHR 0xA9],
      [CHR 0xE2, CHR 0x80, CHR 0xAF], [CHR 0xE2, CHR 0x81, CHR 0x9F],
      [CHR 0xE3, CHR 0x80, CHR 0x80]]"

function lstrip :: "string \<Rightarrow> string" where
  "lstrip s =
     (case find (\<lambda>ws. prefix ws s) whitespace of
        None \<Rightarrow> s
      | Some ws \<Rightarrow> lstrip (drop (length ws) s))"
  by pat_completeness auto
termination
proof (relation "measure length")
  show "wf (measure length)"
    by simp
next
  fix s ws
  assume "find (\<lambda>ws. prefix ws s) whitespace = Some ws"
  then have p: "prefix ws s" and m: "ws \<in> set whitespace"
    by (auto simp: find_Some_iff)
  from m have "ws \<noteq> []"
    by (auto simp: whitespace_def)
  with p show "(drop (length ws) s, s) \<in> measure length"
    by (auto simp: prefix_def)
qed

function rstrip :: "string \<Rightarrow> string" where
  "rstrip s =
     (case find (\<lambda>ws. suffix ws s) whitespace of
        None \<Rightarrow> s
      | Some ws \<Rightarrow> rstrip (take (length s - length ws) s))"
  by pat_completeness auto
termination
proof (relation "measure length")
  show "wf (measure length)"
    by simp
next
  fix s ws
  assume "find (\<lambda>ws. suffix ws s) whitespace = Some ws"
  then have p: "suffix ws s" and m: "ws \<in> set whitespace"
    by (auto simp: find_Some_iff)
  from m have "ws \<noteq> []"
    by (auto simp: whitespace_def)
  with p show "(take (length s - length ws) s, s) \<in> measure length"
    by (auto simp: suffix_def)
qed

declare lstrip.simps [simp del] rstrip.simps [simp del]

definition strip :: "string \<Rightarrow> string" where
  "strip s = rstrip (lstrip s)"

definition os_path_exists :: "string \<Rightarrow> world \<Rightarrow> bool \<times> world" where
  "os_path_exists p w = (files w p \<noteq> None, emit (PathExists p) w)"

definition pd_read_csv :: "string \<Rightarrow> world \<Rightarrow> (py_exception + frame) \<times> world" where
  "pd_read_csv p w =
     (case files w p of
        None \<Rightarrow> (Inl (FileNotFoundError p), emit (ReadCsv p) w)
      | Some r \<Rightarrow> (r, emit (ReadCsv p) w))"

definition load_iris :: "world \<Rightarrow> bunch \<times> world" where
  "load_iris w = (sklearn_iris w, emit LoadIris w)"

subsection \<open>pandas\<close>

text \<open>\<^verbatim>\<open>df.empty\<close>: true when either axis has length 0.\<close>

definition empty :: "frame \<Rightarrow> bool" where
  "empty df = (index df = [] \<or> columns df = [])"

text \<open>\<^verbatim>\<open>df.head()\<close>: the first five rows.\<close>

definition head :: "frame \<Rightarrow> frame" where
  "head df = \<lparr>index = take 5 (index df),
              columns = map (\<lambda>c. c\<lparr>cells := take 5 (cells c)\<rparr>) (columns df)\<rparr>"

definition dtypes :: "frame \<Rightarrow> (string \<times> dtype_kind) list" where
  "dtypes df = map (\<lambda>c. (name c, dtype c)) (columns df)"

text \<open>\<^verbatim>\<open>df.isnull().sum()\<close>: per column, the number of missing values.\<close>

definition isnull_sum :: "frame \<Rightarrow> (string \<times> nat) list" where
  "isnull_sum df = map (\<lambda>c. (name c, length (filter (\<lambda>x. x = Null) (cells c)))) (columns df)"

text \<open>
  \<^verbatim>\<open>df.dropna()\<close> with its defaults (\<^verbatim>\<open>axis=0, how='any'\<close>). As pandas does, it builds the
  row mask \<^verbatim>\<open>notna(df).all(axis=1)\<close> and keeps the positions where the mask holds, in the
  index and in every column; labels and dtypes of the columns stay.
\<close>

definition notna :: "column \<Rightarrow> bool list" where
  "notna c = map (\<lambda>x. x \<noteq> Null) (cells c)"

definition all_axis1 :: "nat \<Rightarrow> bool list list \<Rightarrow> bool list" where
  "all_axis1 n ms = foldr (\<lambda>m acc. map (\<lambda>(a, b). a \<and> b) (zip m acc)) ms (replicate n True)"

definition take_mask :: "bool list \<Rightarrow> 'a list \<Rightarrow> 'a list" where
  "take_mask m xs = map fst (filter snd (zip xs m))"

definition dropna :: "frame \<Rightarrow> frame" where
  "dropna df =
     (let keep = all_axis1 (length (index df)) (map notna (columns df))
      in \<lparr>index = take_mask keep (index df),
          columns = map (\<lambda>c. c\<lparr>cells := take_mask keep (cells c)\<rparr>) (columns df)\<rparr>)"

text \<open>\<^verbatim>\<open>df.select_dtypes(include=kinds)\<close>: the columns whose dtype is in one of the classes,
  in their order.\<close>

definition select_dtypes :: "dtype_kind list \<Rightarrow> frame \<Rightarrow> frame" where
  "select_dtypes kinds df = df\<lparr>columns := filter (\<lambda>c. dtype c \<in> set kinds) (columns df)\<rparr>"

text \<open>\<^verbatim>\<open>df[label]\<close> raises \<^verbatim>\<open>KeyError\<close> when no column has the label.\<close>

definition getitem :: "frame \<Rightarrow> string \<Rightarrow> py_exception + column" where
  "getitem df label =
     (case find (\<lambda>c. name c = label) (columns df) of
        None \<Rightarrow> Inl (KeyError label)
      | Some c \<Rightarrow> Inr c)"

text \<open>\<^verbatim>\<open>df[label] = values\<close>: a column with this label is replaced where it stands,
  otherwise the new column is appended.\<close>

definition setitem :: "frame \<Rightarrow> column \<Rightarrow> frame" where
  "setitem df c =
     (if name c \<in> set (map name (columns df))
      then df\<lparr>columns := map (\<lambda>d. if name d = name c then c else d) (columns df)\<rparr>
      else df\<lparr>columns := columns df @ [c]\<rparr>)"

text \<open>\<^verbatim>\<open>df.drop(columns=label)\<close> raises \<^verbatim>\<open>KeyError\<close> when no column has the label.\<close>

definition drop_columns :: "string \<Rightarrow> frame \<Rightarrow> py_exception + frame" where
  "drop_columns label df =
     (if label \<in> set (map name (columns df))
      then Inr (df\<lparr>columns := filter (\<lambda>c. name c \<noteq> label) (columns df)\<rparr>)
      else Inl (KeyError label))"

text \<open>
  \<^verbatim>\<open>df.describe()\<close> raises \<^verbatim>\<open>ValueError\<close> on a dataframe without columns, before anything is
  printed; on any other dataframe the call is answered by the library.
\<close>

definition print_describe :: "frame \<Rightarrow> world \<Rightarrow> (py_exception + unit) \<times> world" where
  "print_describe df w =
     (if columns df = []
      then (Inl (ValueError ''Cannot describe a DataFrame without columns''), w)
      else lib_call (PrintDescribe df) w)"

subsection \<open>numpy\<close>

text \<open>Decimal digits of an integer, as \<^verbatim>\<open>str\<close> formats it.\<close>

function show_nat :: "nat \<Rightarrow> string" where
  "show_nat n =
     (if n < 10 then [''0123456789'' ! n]
      else show_nat (n div 10) @ [''0123456789'' ! (n mod 10)])"
  by pat_completeness auto
termination
  by (relation "measure (\<lambda>n. n)") auto

declare show_nat.simps [simp del]

definition show_int :: "int \<Rightarrow> string" where
  "show_int i = (if i < 0 then CHR ''-'' # show_nat (nat (- i)) else show_nat (nat i))"

text \<open>
  \<^verbatim>\<open>names[idx]\<close> where \<open>names\<close> is a numpy array and \<open>idx\<close> an array of indices. An index
  array that is not of an integer type is refused; each index \<open>i\<close> must be within
  \<open>-n \<le> i < n\<close> (a negative one counts from the end), and the first one that is not is
  reported. Both are an \<^verbatim>\<open>IndexError\<close>, with numpy's text.
\<close>

definition np_item :: "string list \<Rightarrow> cell \<Rightarrow> py_exception + string" where
  "np_item names x =
     (case x of
        IntV i \<Rightarrow>
          (let n = int (length names) in
           if 0 \<le> i \<and> i < n then Inr (names ! nat i)
           else if - n \<le> i \<and> i < 0 then Inr (names ! nat (n + i))
           else Inl (IndexError (''index '' @ show_int i @ '' is out of bounds for axis 0 with size ''
                                   @ show_int n)))
      | _ \<Rightarrow> Inl (IndexError ''arrays used as indices must be of integer (or boolean) type''))"

fun np_take :: "string list \<Rightarrow> cell list \<Rightarrow> py_exception + string list" where
  "np_take names [] = Inr []"
| "np_take names (x # xs) =
     (case np_item names x of
        Inl e \<Rightarrow> Inl e
      | Inr s \<Rightarrow> (case np_take names xs of Inl e \<Rightarrow> Inl e | Inr ss \<Rightarrow> Inr (s # ss)))"

fun is_int :: "cell \<Rightarrow> bool" where
  "is_int (IntV i) = True"
| "is_int x = False"

definition np_getitem :: "string list \<Rightarrow> cell list \<Rightarrow> py_exception + string list" where
  "np_getitem names idx =
     (if list_all is_int idx then np_take names idx
      else Inl (IndexError ''arrays used as indices must be of integer (or boolean) type''))"

section \<open>The script\<close>

text \<open>The non-ASCII characters of the script's messages, as their UTF-8 bytes.\<close>

definition cross :: string where "cross = [CHR 0xE2, CHR 0x9C, CHR 0x97]"
definition tick :: string where "tick = [CHR 0xE2, CHR 0x9C, CHR 0x93]"
definition arrow :: string where "arrow = [CHR 0xE2, CHR 0x86, CHR 0x92]"
definition nl :: string where "nl = [CHR 0x0A]"

subsection \<open>\<^verbatim>\<open>load_iris_dataset\<close> (lines 39-46)\<close>

text \<open>
  \<open>species_frame\<close> is lines 42-44, the part of the function that works on the bunch
  alone: \<^verbatim>\<open>df = iris.frame\<close>, \<^verbatim>\<open>df["species"] = iris.target_names[df["target"]]\<close> (numpy
  strings become a column of dtype object) and \<^verbatim>\<open>df.drop(columns="target", inplace=True)\<close>.
  An exception raised there leaves \<^verbatim>\<open>load_iris_dataset\<close> before its \<^verbatim>\<open>print\<close>.
\<close>

definition species_frame :: "bunch \<Rightarrow> py_exception + frame" where
  "species_frame iris =
     (let df = frame iris
      in case getitem df ''target'' of
           Inl e \<Rightarrow> Inl e
         | Inr target \<Rightarrow>
            (case np_getitem (target_names iris) (cells target) of
               Inl e \<Rightarrow> Inl e
             | Inr species \<Rightarrow>
                 drop_columns ''target''
                   (setitem df \<lparr>name = ''species'', dtype = Object, cells = map StrV species\<rparr>)))"

definition iris_loaded_msg :: string where
  "iris_loaded_msg = tick @ '' Iris dataset successfully loaded.''"

definition load_iris_dataset :: "world \<Rightarrow> (py_exception + frame option) \<times> world" where
  "load_iris_dataset w =
     (let (iris, w1) = load_iris w
      in case species_frame iris of
           Inl e \<Rightarrow> (Inl e, w1)
         | Inr df \<Rightarrow> (Inr (Some df), print_str iris_loaded_msg w1))"

subsection \<open>\<^verbatim>\<open>load_dataset\<close> (lines 19-37)\<close>

text \<open>
  A Python function returns an object or \<^verbatim>\<open>None\<close>; \<^verbatim>\<open>main\<close> tests the result of
  \<^verbatim>\<open>load_dataset\<close> for \<^verbatim>\<open>None\<close>, so the result is a \<open>frame option\<close>. \<open>load_dataset_try\<close>
  is the body of the \<^verbatim>\<open>try\<close> block (lines 26-32): an exception leaves it as \<open>Inl\<close>, also
  one that the call of \<^verbatim>\<open>load_iris_dataset\<close> in line 28 raises.
\<close>

definition file_not_found_msg :: "string \<Rightarrow> string" where
  "file_not_found_msg choice =
     cross @ '' File not found: '' @ choice @ ''. Falling back to Iris dataset.''"

definition error_loading_msg :: "py_exception \<Rightarrow> string" where
  "error_loading_msg e =
     cross @ '' Error loading CSV: '' @ str_exception e @ ''. Falling back to Iris dataset.''"

definition loaded_msg :: "string \<Rightarrow> string" where
  "loaded_msg choice = tick @ '' Dataset successfully loaded from '' @ choice"

definition question_msg :: string where
  "question_msg = ''Would you like to load your own CSV dataset?''"

definition prompt_msg :: string where
  "prompt_msg = ''Enter CSV file path or press Enter to use the Iris dataset: ''"

definition load_dataset_try :: "string \<Rightarrow> world \<Rightarrow> (py_exception + frame option) \<times> world" where
  "load_dataset_try choice w =
     (let (ex, w1) = os_path_exists choice w
      in if \<not> ex then load_iris_dataset (print_str (file_not_found_msg choice) w1)
         else (case pd_read_csv choice w1 of
                 (Inl e, w2) \<Rightarrow> (Inl e, w2)
               | (Inr df, w2) \<Rightarrow> (Inr (Some df), print_str (loaded_msg choice) w2)))"

definition load_dataset :: "world \<Rightarrow> (py_exception + frame option) \<times> world" where
  "load_dataset w =
     (let w1 = print_str question_msg w
      in case input_line prompt_msg w1 of
           (Inl e, w2) \<Rightarrow> (Inl e, w2)
         | (Inr line, w2) \<Rightarrow>
            (let choice = strip line
             in if choice \<noteq> [] then
                  (case load_dataset_try choice w2 of
                     (Inl e, w3) \<Rightarrow> load_iris_dataset (print_str (error_loading_msg e) w3)
                   | (Inr df, w3) \<Rightarrow> (Inr df, w3))
                else load_iris_dataset w2))"

subsection \<open>\<^verbatim>\<open>explore_data\<close> (lines 48-61)\<close>

definition explore_data :: "frame \<Rightarrow> world \<Rightarrow> frame \<times> world" where
  "explore_data df w =
     (let w1 = print_str (nl @ ''--- Data Overview ---'') w;
          w2 = emit (PrintHead (head df)) w1;
          w3 = print_str (nl @ ''--- Data Types ---'') w2;
          w4 = emit (PrintDtypes (dtypes df)) w3;
          w5 = print_str (nl @ ''--- Missing Values ---'') w4;
          w6 = emit (PrintNullCounts (isnull_sum df)) w5
      in (dropna df, w6))"

subsection \<open>\<^verbatim>\<open>basic_analysis\<close> (lines 63-81)\<close>

text \<open>
  The function has no handler: an exception of \<^verbatim>\<open>df.describe()\<close> (line 66) or of
  \<^verbatim>\<open>df.groupby(group_col).mean(numeric_only=True)\<close> (line 75) leaves it at once. The header
  of line 74 is printed before the grouping is computed.
\<close>

definition summary_msg :: string where
  "summary_msg = nl @ ''--- Summary Statistics ---''"

definition group_msg :: "string \<Rightarrow> string" where
  "group_msg group_col = nl @ ''--- Mean of numerical features grouped by '' @ group_col @ '' ---''"

definition observation_msg :: "string \<Rightarrow> string" where
  "observation_msg group_col =
     arrow @ '' Grouping by '' @ group_col @ '' shows distinct differences in numerical features.''"

definition no_group_msg :: string where
  "no_group_msg = nl @ ''(No categorical column found for grouping analysis.)''"

definition basic_analysis :: "frame \<Rightarrow> world \<Rightarrow> (py_exception + unit) \<times> world" where
  "basic_analysis df w =
     (let w1 = print_str summary_msg w
      in case print_describe df w1 of
           (Inl x, w2) \<Rightarrow> (Inl x, w2)
         | (Inr u, w2) \<Rightarrow>
            (let cat_cols = map name (columns (select_dtypes [Object, Category] df));
                 num_cols = map name (columns (select_dtypes [Number] df))
             in if length cat_cols > 0 \<and> length num_cols > 0 then
                  (let group_col = cat_cols ! 0;
                       w3 = print_str (group_msg group_col) w2
                   in case lib_call (PrintGroupMean group_col df) w3 of
                        (Inl x, w4) \<Rightarrow> (Inl x, w4)
                      | (Inr u, w4) \<Rightarrow>
                          (let w5 = print_str (nl @ ''Observation:'') w4
                           in (Inr (), print_str (observation_msg group_col) w5)))
                else (Inr (), print_str no_group_msg w2)))"

subsection \<open>\<^verbatim>\<open>visualize_data\<close> (lines 83-129)\<close>

text \<open>
  \<open>num_cols\<close> and \<open>cat_cols\<close> are the selected columns; \<^verbatim>\<open>num_cols[0]\<close> in the script is
  the label of the first one and \<^verbatim>\<open>df[num_cols[0]]\<close> its values (labels are unique in a
  frame that \<^verbatim>\<open>read_csv\<close> or \<^verbatim>\<open>load_iris\<close> built). The four blocks of the script are four
  lists of pyplot and seaborn calls. \<open>plt\<close> makes the calls of a list one after the other;
  the function has no handler, so the first call that raises ends it and the calls after
  it are not made.
\<close>

fun plt :: "plt_call list \<Rightarrow> world \<Rightarrow> (py_exception + unit) \<times> world" where
  "plt [] w = (Inr (), w)"
| "plt (c # cs) w =
     (case lib_call (Plt c) w of
        (Inl x, w') \<Rightarrow> (Inl x, w')
      | (Inr u, w') \<Rightarrow> plt cs w')"

definition line_chart :: "frame \<Rightarrow> column \<Rightarrow> plt_call list" where
  "line_chart df c0 =
     [Figure 8 4,
      Plot (index df) (cells c0) (name c0) ''green'',
      Title (name c0 @ '' Trend Across Samples''),
      Xlabel ''Sample Index'',
      Ylabel (name c0),
      Legend None,
      Tight_layout,
      Show]"

definition bar_chart :: "frame \<Rightarrow> column \<Rightarrow> column \<Rightarrow> plt_call list" where
  "bar_chart df c0 k0 =
     [Figure 6 4,
      Barplot (name k0) (name c0) df ''mean'' ''viridis'',
      Title (''Average '' @ name c0 @ '' by '' @ name k0),
      Xlabel (name k0),
      Ylabel (''Avg '' @ name c0),
      Tight_layout,
      Show]"

definition histogram :: "column \<Rightarrow> plt_call list" where
  "histogram c1 =
     [Figure 6 4,
      Hist (cells c1) 15 ''skyblue'' ''black'',
      Title (''Distribution of '' @ name c1),
      Xlabel (name c1),
      Ylabel ''Frequency'',
      Tight_layout,
      Show]"

definition scatter_plot :: "frame \<Rightarrow> column \<Rightarrow> column \<Rightarrow> column list \<Rightarrow> plt_call list" where
  "scatter_plot df c0 c1 cat_cols =
     [Figure 6 4,
      Scatterplot (name c0) (name c1)
        (if length cat_cols > 0 then Some (name (cat_cols ! 0)) else None) df ''deep'',
      Title (name c0 @ '' vs '' @ name c1),
      Xlabel (name c0),
      Ylabel (name c1),
      Legend (Some (if length cat_cols > 0 then name (cat_cols ! 0) else ''Legend'')),
      Tight_layout,
      Show]"

definition not_enough_msg :: string where
  "not_enough_msg = nl @ cross @ '' Not enough numerical columns to generate all plots.''"

definition visualize_data :: "frame \<Rightarrow> world \<Rightarrow> (py_exception + unit) \<times> world" where
  "visualize_data df w =
     (let num_cols = columns (select_dtypes [Number] df)
      in if length num_cols < 2 then (Inr (), print_str not_enough_msg w)
         else
           (case plt (line_chart df (num_cols ! 0)) w of
              (Inl x, w1) \<Rightarrow> (Inl x, w1)
            | (Inr u, w1) \<Rightarrow>
               (let cat_cols = columns (select_dtypes [Object, Category] df)
                in case (if length cat_cols > 0
                         then plt (bar_chart df (num_cols ! 0) (cat_cols ! 0)) w1
                         else (Inr (), w1)) of
                     (Inl x, w2) \<Rightarrow> (Inl x, w2)
                   | (Inr u, w2) \<Rightarrow>
                      (case plt (histogram (num_cols ! 1)) w2 of
                         (Inl x, w3) \<Rightarrow> (Inl x, w3)
                       | (Inr u, w3) \<Rightarrow>
                           plt (scatter_plot df (num_cols ! 0) (num_cols ! 1) cat_cols) w3))))"

subsection \<open>\<^verbatim>\<open>main\<close> (lines 131-143)\<close>

text \<open>\<^verbatim>\<open>main\<close> has no handler either: an exception of \<^verbatim>\<open>load_dataset\<close>, \<^verbatim>\<open>basic_analysis\<close> or
  \<^verbatim>\<open>visualize_data\<close> ends it, and the lines after the call are not run.\<close>

definition no_dataset_msg :: string where
  "no_dataset_msg = cross @ '' No dataset available. Exiting.''"

definition complete_msg :: string where
  "complete_msg = nl @ ''Analysis complete. Community enriched.''"

definition welcome_msg :: string where
  "welcome_msg = ''Welcome to Ubuntu Data Explorer'' @ nl"

definition main :: "world \<Rightarrow> (py_exception + unit) \<times> world" where
  "main w =
     (let w0 = print_str welcome_msg w
      in case load_dataset w0 of
           (Inl e, w1) \<Rightarrow> (Inl e, w1)
         | (Inr None, w1) \<Rightarrow> (Inr (), print_str no_dataset_msg w1)
         | (Inr (Some df), w1) \<Rightarrow>
             if empty df then (Inr (), print_str no_dataset_msg w1)
             else
               (let (df1, w2) = explore_data df w1
                in case basic_analysis df1 w2 of
                     (Inl x, w3) \<Rightarrow> (Inl x, w3)
                   | (Inr u, w3) \<Rightarrow>
                      (case visualize_data df1 w3 of
                         (Inl x, w4) \<Rightarrow> (Inl x, w4)
                       | (Inr u, w4) \<Rightarrow> (Inr (), print_str complete_msg w4))))"

section \<open>Notions used to state the properties\<close>

text \<open>The events of a run: what the trace holds beyond the trace it started with.\<close>

definition events_since :: "world \<Rightarrow> world \<Rightarrow> event list" where
  "events_since w w' = drop (length (trace w)) (trace w')"

text \<open>A categorical column has dtype object or category; a numeric column has a number
  dtype.\<close>

definition categorical :: "column \<Rightarrow> bool" where
  "categorical c = (dtype c = Object \<or> dtype c = Category)"

definition numeric :: "column \<Rightarrow> bool" where
  "numeric c = (dtype c = Number)"



text \<open>
  The pyplot and seaborn calls of \<^verbatim>\<open>visualize_data\<close> on a dataframe with at least two
  numeric columns, in the order of the script: the line chart of the first numeric
  column, the bar chart of the first numeric column per first categorical column if there
  is a categorical column, the histogram of the second numeric column, the scatter plot of
  the first two numeric columns.
\<close>

definition chart_calls :: "frame \<Rightarrow> plt_call list" where
  "chart_calls df =
     line_chart df (filter numeric (columns df) ! 0) @
     (if filter categorical (columns df) \<noteq> []
      then bar_chart df (filter numeric (columns df) ! 0) (filter categorical (columns df) ! 0)
      else []) @
     histogram (filter numeric (columns df) ! 1) @
     scatter_plot df (filter numeric (columns df) ! 0) (filter numeric (columns df) ! 1)
       (filter categorical (columns df))"

text \<open>
  A dataframe is rectangular: every column has one value per index label. Row \<open>i\<close> of a
  rectangular frame is its label with the values of the columns at position \<open>i\<close>.
\<close>

definition rectangular :: "frame \<Rightarrow> bool" where
  "rectangular df = list_all (\<lambda>c. length (cells c) = length (index df)) (columns df)"

definition row :: "frame \<Rightarrow> nat \<Rightarrow> nat \<times> cell list" where
  "row df i = (index df ! i, map (\<lambda>c. cells c ! i) (columns df))"

definition rows :: "frame \<Rightarrow> (nat \<times> cell list) list" where
  "rows df = map (row df) [0..<length (index df)]"

definition has_null :: "nat \<times> cell list \<Rightarrow> bool" where
  "has_null r = (Null \<in> set (snd r))"

text \<open>
  The calls that only \<^verbatim>\<open>load_dataset\<close> and \<^verbatim>\<open>load_iris_dataset\<close> make: the prompt and the
  three operations that can fail or report a failure.
\<close>

fun is_input :: "event \<Rightarrow> bool" where
  "is_input (Input p) = True"
| "is_input e = False"

fun is_path_exists :: "event \<Rightarrow> bool" where
  "is_path_exists (PathExists p) = True"
| "is_path_exists e = False"

fun is_read_csv :: "event \<Rightarrow> bool" where
  "is_read_csv (ReadCsv p) = True"
| "is_read_csv e = False"

fun is_load_iris :: "event \<Rightarrow> bool" where
  "is_load_iris LoadIris = True"
| "is_load_iris e = False"

text \<open>
  The four steps of \<^verbatim>\<open>main\<close>, and the event by which a run of each shows in the trace:
  \<^verbatim>\<open>load_dataset\<close> is the only function that calls \<^verbatim>\<open>input\<close>, \<^verbatim>\<open>explore_data\<close> the only one
  that prints \<^verbatim>\<open>df.head()\<close>, \<^verbatim>\<open>basic_analysis\<close> the only one that prints the header of the
  summary statistics, each once per call and whatever happens later in the call.
  \<^verbatim>\<open>visualize_data\<close> begins with its message or with \<^verbatim>\<open>plt.figure(figsize=(8, 4))\<close>, the only
  figure of that size; it shows in the trace unless this first call raises.
\<close>

datatype step = LoadStep | CleanStep | DescribeStep | PlotStep

fun step_start :: "event \<Rightarrow> step option" where
  "step_start (Input p) = Some LoadStep"
| "step_start (PrintHead d) = Some CleanStep"
| "step_start (Print s) =
     (if s = summary_msg then Some DescribeStep
      else if s = not_enough_msg then Some PlotStep else None)"
| "step_start (Plt (Figure w h)) = (if w = 8 \<and> h = 4 then Some PlotStep else None)"
| "step_start e = None"

definition steps :: "event list \<Rightarrow> step list" where
  "steps es = List.map_filter step_start es"

subsection \<open>Sample data\<close>

text \<open>Three rows of the Iris data, one per species, in the shape \<^verbatim>\<open>load_iris\<close> gives them.\<close>

definition iris_sample :: bunch where
  "iris_sample =
     \<lparr>frame = \<lparr>index = [0, 1, 2],
                columns =
                  [\<lparr>name = ''sepal length (cm)'', dtype = Number,
                     cells = [FloatV 5.1, FloatV 7.0, FloatV 6.3]\<rparr>,
                   \<lparr>name = ''sepal width (cm)'', dtype = Number,
                     cells = [FloatV 3.5, FloatV 3.2, FloatV 3.3]\<rparr>,
                   \<lparr>name = ''petal length (cm)'', dtype = Number,
                     cells = [FloatV 1.4, FloatV 4.7, FloatV 6.0]\<rparr>,
                   \<lparr>name = ''petal width (cm)'', dtype = Number,
                     cells = [FloatV 0.2, FloatV 1.4, FloatV 2.5]\<rparr>,
                   \<lparr>name = ''target'', dtype = Number,
                     cells = [IntV 0, IntV 1, IntV 2]\<rparr>]\<rparr>,
      target_names = [''setosa'', ''versicolor'', ''virginica'']\<rparr>"

definition iris_sample_species :: frame where
  "iris_sample_species =
     \<lparr>index = [0, 1, 2],
      columns =
        [\<lparr>name = ''sepal length (cm)'', dtype = Number,
           cells = [FloatV 5.1, FloatV 7.0, FloatV 6.3]\<rparr>,
         \<lparr>name = ''sepal width (cm)'', dtype = Number,
           cells = [FloatV 3.5, FloatV 3.2, FloatV 3.3]\<rparr>,
         \<lparr>name = ''petal length (cm)'', dtype = Number,
           cells = [FloatV 1.4, FloatV 4.7, FloatV 6.0]\<rparr>,
         \<lparr>name = ''petal width (cm)'', dtype = Number,
           cells = [FloatV 0.2, FloatV 1.4, FloatV 2.5]\<rparr>,
         \<lparr>name = ''species'', dtype = Object,
           cells = [StrV ''setosa'', StrV ''versicolor'', StrV ''virginica'']\<rparr>]\<rparr>"

text \<open>A bunch whose frame lacks the \<^verbatim>\<open>target\<close> column: on it \<^verbatim>\<open>load_iris_dataset\<close> raises
  \<^verbatim>\<open>KeyError\<close> in line 43.\<close>

definition broken_iris :: bunch where
  "broken_iris =
     \<lparr>frame = \<lparr>index = [0],
                columns = [\<lparr>name = ''sepal length (cm)'', dtype = Number,
                            cells = [FloatV 5.1]\<rparr>]\<rparr>,
      target_names = [''setosa'', ''versicolor'', ''virginica'']\<rparr>"

text \<open>A frame as \<^verbatim>\<open>read_csv\<close> could return it, with a missing value in two of its rows;
  a frame with two numeric columns and no categorical one; the same with an infinity in
  the second column; a frame with a header only; a frame without columns.\<close>

definition people :: frame where
  "people =
     \<lparr>index = [0, 1, 2, 3],
      columns =
        [\<lparr>name = ''height'', dtype = Number,
           cells = [FloatV 1.5, Null, FloatV 1.8, FloatV 1.6]\<rparr>,
         \<lparr>name = ''weight'', dtype = Number,
           cells = [IntV 60, IntV 70, IntV 80, IntV 65]\<rparr>,
         \<lparr>name = ''city'', dtype = Object,
           cells = [StrV ''Oslo'', StrV ''Rome'', Null, StrV ''Lima'']\<rparr>]\<rparr>"


definition rates :: frame where
  "rates =
     \<lparr>index = [0, 1],
      columns =
        [\<lparr>name = ''x'', dtype = Number, cells = [IntV 1, IntV 2]\<rparr>,
         \<lparr>name = ''rate'', dtype = Number, cells = [FloatV 1, PosInf]\<rparr>]\<rparr>"

definition header_only :: frame where
  "header_only = \<lparr>index = [], columns = [\<lparr>name = ''x'', dtype = Object, cells = []\<rparr>]\<rparr>"

definition no_columns :: frame where
  "no_columns = \<lparr>index = [0, 1], columns = []\<rparr>"

text \<open>A world with four files: three that \<^verbatim>\<open>read_csv\<close> reads and an empty one, on which it
  raises \<^verbatim>\<open>EmptyDataError\<close>. Standard input is given per run.\<close>

definition sample_files :: "string \<rightharpoonup> py_exception + frame" where
  "sample_files =
     [''people.csv'' \<mapsto> Inr people,
      ''rates.csv'' \<mapsto> Inr rates,
      ''header.csv'' \<mapsto> Inr header_only,
      ''empty.csv'' \<mapsto> Inl (CsvError ''No columns to parse from file'')]"

text \<open>The libraries of the sample world raise where numpy does on the sample data: in
  \<^verbatim>\<open>plt.hist\<close> on values that hold an infinity (for the column \<^verbatim>\<open>rate\<close> of \<open>rates\<close> the
  text is that of numpy). Every other call returns.\<close>

definition sample_raises :: "event list \<Rightarrow> event \<Rightarrow> py_exception option" where
  "sample_raises h e =
     (case e of
        Plt (Hist xs b c ec) \<Rightarrow>
          (if PosInf \<in> set xs \<or> NegInf \<in> set xs
           then Some (ValueError ''supplied range of [1.0, inf] is not finite'')
           else None)
      | _ \<Rightarrow> None)"

definition sample_world :: "string list \<Rightarrow> world" where
  "sample_world lines =
     \<lparr>stdin = lines, files = sample_files, sklearn_iris = iris_sample,
      raises = sample_raises, trace = []\<rparr>"

definition broken_world :: "string list \<Rightarrow> world" where
  "broken_world lines =
     \<lparr>stdin = lines, files = sample_files, sklearn_iris = broken_iris,
      raises = sample_raises, trace = []\<rparr>"

section \<open>Basic facts\<close>

lemma emit_fields [simp]:
  "trace (emit e w) = trace w @ [e]"
  "files (emit e w) = files w"
  "stdin (emit e w) = stdin w"
  "sklearn_iris (emit e w) = sklearn_iris w"
  "raises (emit e w) = raises w"
  by (simp_all add: emit_def)

lemma print_str_fields [simp]:
  "trace (print_str s w) = trace w @ [Print s]"
  "files (print_str s w) = files w"
  "stdin (print_str s w) = stdin w"
  "sklearn_iris (print_str s w) = sklearn_iris w"
  "raises (print_str s w) = raises w"
  by (simp_all add: print_str_def)

lemma events_since_append:
  "trace w' = trace w @ es \<Longrightarrow> events_since w w' = es"
  by (simp add: events_since_def)

lemma events_since_self [simp]: "events_since w w = []"
  by (simp add: events_since_def)

lemma events_since_prefix:
  "prefix (trace w) (trace w') \<Longrightarrow> trace w' = trace w @ events_since w w'"
  by (auto simp: prefix_def events_since_def)

lemma select_categorical:
  "columns (select_dtypes [Object, Category] df) = filter categorical (columns df)"
  by (simp add: select_dtypes_def categorical_def [abs_def])

lemma select_numeric:
  "columns (select_dtypes [Number] df) = filter numeric (columns df)"
  by (simp add: select_dtypes_def numeric_def [abs_def])

text \<open>The first element that a filter keeps, and what stands before it.\<close>

lemma first_selected:
  assumes "filter P xs \<noteq> []"
  shows "\<exists>pre c post. xs = pre @ c # post \<and> P c \<and> (\<forall>p\<in>set pre. \<not> P p) \<and> filter P xs ! 0 = c"
proof -
  from assms have "\<exists>x\<in>set xs. P x"
    by (simp add: filter_empty_conv)
  from split_list_first_prop [OF this]
  obtain pre c post where *: "xs = pre @ c # post" "P c" "\<forall>p\<in>set pre. \<not> P p"
    by blast
  have "filter P xs ! 0 = c"
    unfolding *(1) using *(2,3) by simp
  with * show ?thesis by blast
qed


section \<open>\<^verbatim>\<open>explore_data\<close> and \<^verbatim>\<open>dropna\<close>\<close>

lemma all_axis1_Nil: "all_axis1 n [] = replicate n True"
  by (simp add: all_axis1_def)

lemma all_axis1_Cons:
  "all_axis1 n (m # ms) = map (\<lambda>(a, b). a \<and> b) (zip m (all_axis1 n ms))"
  by (simp add: all_axis1_def)

text \<open>Where the mask holds, every column mask holds.\<close>

lemma all_axis1_holds:
  "i < length (all_axis1 n ms) \<Longrightarrow> all_axis1 n ms ! i \<Longrightarrow> m \<in> set ms \<Longrightarrow> i < length m \<and> m ! i"
proof (induction ms)
  case Nil
  then show ?case by simp
next
  case (Cons a ms)
  from Cons.prems(1) have i: "i < length a" "i < length (all_axis1 n ms)"
    by (simp_all add: all_axis1_Cons)
  with Cons.prems(2) have h: "a ! i" "all_axis1 n ms ! i"
    by (simp_all add: all_axis1_Cons)
  show ?case
  proof (cases "m = a")
    case True
    with i h show ?thesis by simp
  next
    case False
    with Cons.prems(3) have "m \<in> set ms" by simp
    with Cons.IH i h show ?thesis by blast
  qed
qed

lemma all_axis1_length:
  "list_all (\<lambda>m. length m = n) ms \<Longrightarrow> length (all_axis1 n ms) = n"
  by (induction ms) (simp_all add: all_axis1_Nil all_axis1_Cons)

lemma all_axis1_nth:
  "list_all (\<lambda>m. length m = n) ms \<Longrightarrow> i < n \<Longrightarrow> all_axis1 n ms ! i = list_all (\<lambda>m. m ! i) ms"
  by (induction ms) (simp_all add: all_axis1_Nil all_axis1_Cons all_axis1_length)

lemma take_mask_member:
  "x \<in> set (take_mask keep xs) \<Longrightarrow> \<exists>i. i < length xs \<and> i < length keep \<and> xs ! i = x \<and> keep ! i"
  unfolding take_mask_def
  by (auto simp: in_set_zip)

lemma take_mask_Nil [simp]: "take_mask [] xs = []" "take_mask keep [] = []"
  by (simp_all add: take_mask_def)

lemma take_mask_Cons [simp]:
  "take_mask (k # keep) (x # xs) = (if k then x # take_mask keep xs else take_mask keep xs)"
  by (simp add: take_mask_def)

lemma upt_Suc_shift: "[0..<Suc n] = 0 # map Suc [0..<n]"
  by (simp add: upt_conv_Cons map_Suc_upt del: upt_Suc)

lemma take_mask_positions:
  "length xs = length keep \<Longrightarrow>
   take_mask keep xs = map (\<lambda>i. xs ! i) (filter (\<lambda>i. keep ! i) [0..<length keep])"
proof (induction xs keep rule: list_induct2)
  case Nil
  then show ?case by simp
next
  case (Cons x xs k keep)
  have "filter (\<lambda>i. (k # keep) ! i) [0..<length (k # keep)] =
        (if k then [0] else []) @ map Suc (filter (\<lambda>i. keep ! i) [0..<length keep])"
    by (simp add: upt_Suc_shift filter_map comp_def del: upt_Suc)
  then show ?case
    using Cons.IH by (simp add: comp_def del: upt_Suc)
qed

lemma dropna_no_null:
  assumes "c \<in> set (columns (dropna df))"
  shows "Null \<notin> set (cells c)"
proof
  let ?keep = "all_axis1 (length (index df)) (map notna (columns df))"
  assume null: "Null \<in> set (cells c)"
  from assms obtain d where d: "d \<in> set (columns df)" "cells c = take_mask ?keep (cells d)"
    by (auto simp: dropna_def Let_def)
  from null d(2) take_mask_member [of Null ?keep "cells d"]
  obtain i where i: "i < length ?keep" "cells d ! i = Null" "?keep ! i"
    by auto
  from d(1) have "notna d \<in> set (map notna (columns df))"
    by simp
  from all_axis1_holds [OF i(1) i(3) this] have "i < length (notna d)" "notna d ! i"
    by simp_all
  then have "cells d ! i \<noteq> Null"
    by (simp add: notna_def)
  with i(2) show False by simp
qed

lemma dropna_rows:
  assumes "rectangular df"
  shows "rows (dropna df) = filter (\<lambda>r. \<not> has_null r) (rows df)"
proof -
  let ?n = "length (index df)"
  let ?keep = "all_axis1 ?n (map notna (columns df))"
  let ?K = "filter (\<lambda>i. ?keep ! i) [0..<?n]"
  from assms have rect: "list_all (\<lambda>m. length m = ?n) (map notna (columns df))"
    by (simp add: rectangular_def notna_def list_all_iff)
  have len: "length ?keep = ?n"
    by (rule all_axis1_length [OF rect])
  have idx: "index (dropna df) = map (\<lambda>i. index df ! i) ?K"
    using take_mask_positions [of "index df" ?keep] len by (simp add: dropna_def Let_def)
  have cols: "columns (dropna df) = map (\<lambda>c. c\<lparr>cells := map (\<lambda>i. cells c ! i) ?K\<rparr>) (columns df)"
  proof -
    have "take_mask ?keep (cells c) = map (\<lambda>i. cells c ! i) ?K" if "c \<in> set (columns df)" for c
    proof -
      from that assms have "length (cells c) = length ?keep"
        by (simp add: rectangular_def list_all_iff len)
      from take_mask_positions [OF this] show ?thesis
        by (simp add: len)
    qed
    then show ?thesis
      by (simp add: dropna_def Let_def)
  qed
  have row: "row (dropna df) j = row df (?K ! j)" if "j < length ?K" for j
    using that by (simp add: row_def idx cols comp_def)
  have "rows (dropna df) = map (\<lambda>j. row df (?K ! j)) [0..<length ?K]"
    unfolding rows_def by (simp add: idx row)
  also have "\<dots> = map (row df) (map (\<lambda>j. ?K ! j) [0..<length ?K])"
    by (simp add: comp_def)
  also have "\<dots> = map (row df) ?K"
    by (simp only: map_nth)
  also have "\<dots> = filter (\<lambda>r. \<not> has_null r) (map (row df) [0..<?n])"
  proof -
    have "?keep ! i \<longleftrightarrow> \<not> has_null (row df i)" if "i < ?n" for i
    proof -
      have "notna c ! i \<longleftrightarrow> cells c ! i \<noteq> Null" if "c \<in> set (columns df)" for c
      proof -
        from that assms have "length (cells c) = ?n"
          by (simp add: rectangular_def list_all_iff)
        with \<open>i < ?n\<close> show ?thesis
          by (simp add: notna_def)
      qed
      then have "list_all (\<lambda>m. m ! i) (map notna (columns df)) \<longleftrightarrow>
                 (\<forall>c\<in>set (columns df). cells c ! i \<noteq> Null)"
        by (simp add: list_all_iff)
      also have "\<dots> \<longleftrightarrow> \<not> has_null (row df i)"
        by (force simp: has_null_def row_def image_iff)
      finally show ?thesis
        using all_axis1_nth [OF rect that] by simp
    qed
    then have "?K = filter (\<lambda>i. \<not> has_null (row df i)) [0..<?n]"
      by (intro filter_cong) simp_all
    then show ?thesis
      by (simp add: filter_map comp_def)
  qed
  finally show ?thesis
    by (simp add: rows_def)
qed

lemma explore_data_result: "fst (explore_data df w) = dropna df"
  by (simp add: explore_data_def Let_def)

lemma explore_data_trace:
  "trace (snd (explore_data df w)) = trace w @
     [Print (nl @ ''--- Data Overview ---''), PrintHead (head df),
      Print (nl @ ''--- Data Types ---''), PrintDtypes (dtypes df),
      Print (nl @ ''--- Missing Values ---''), PrintNullCounts (isnull_sum df)]"
  by (simp add: explore_data_def Let_def)

lemma explore_data_fields [simp]:
  "files (snd (explore_data df w)) = files w"
  "stdin (snd (explore_data df w)) = stdin w"
  "sklearn_iris (snd (explore_data df w)) = sklearn_iris w"
  "raises (snd (explore_data df w)) = raises w"
  by (simp_all add: explore_data_def Let_def)

text \<open>
  C8. The dataframe that \<^verbatim>\<open>explore_data\<close> returns has no missing value in any column.
  For a dataframe as pandas has them (one value per column and index label), its rows are
  the rows of the input that hold no missing value, with their labels, in the order of
  the input.
\<close>

theorem explore_data_drops_null_rows:
  "(\<forall>c\<in>set (columns (fst (explore_data df w))). Null \<notin> set (cells c)) \<and>
   (rectangular df \<longrightarrow>
      rows (fst (explore_data df w)) = filter (\<lambda>r. \<not> has_null r) (rows df))"
  unfolding explore_data_result
  using dropna_no_null [of _ df] dropna_rows [of df] by blast

lemma sample_world_fields [simp]:
  "stdin (sample_world ls) = ls"
  "files (sample_world ls) = sample_files"
  "sklearn_iris (sample_world ls) = iris_sample"
  "raises (sample_world ls) = sample_raises"
  "trace (sample_world ls) = []"
  by (simp_all add: sample_world_def)

lemma broken_world_fields [simp]:
  "stdin (broken_world ls) = ls"
  "files (broken_world ls) = sample_files"
  "sklearn_iris (broken_world ls) = broken_iris"
  "raises (broken_world ls) = sample_raises"
  "trace (broken_world ls) = []"
  by (simp_all add: broken_world_def)

theorem explore_data_drops_null_rows_witness:
  "rectangular people \<and>
   rows people =
     [(0, [FloatV 1.5, IntV 60, StrV ''Oslo'']),
      (1, [Null, IntV 70, StrV ''Rome'']),
      (2, [FloatV 1.8, IntV 80, Null]),
      (3, [FloatV 1.6, IntV 65, StrV ''Lima''])] \<and>
   rows (fst (explore_data people (sample_world []))) =
     [(0, [FloatV 1.5, IntV 60, StrV ''Oslo'']),
      (3, [FloatV 1.6, IntV 65, StrV ''Lima''])]"
proof -
  have r: "rectangular people"
    by (simp add: rectangular_def people_def)
  have rs: "rows people =
     [(0, [FloatV 1.5, IntV 60, StrV ''Oslo'']),
      (1, [Null, IntV 70, StrV ''Rome'']),
      (2, [FloatV 1.8, IntV 80, Null]),
      (3, [FloatV 1.6, IntV 65, StrV ''Lima''])]"
    by (simp add: rows_def row_def people_def upt_rec)
  from explore_data_drops_null_rows [of people "sample_world []"] r
  have "rows (fst (explore_data people (sample_world []))) =
          filter (\<lambda>r. \<not> has_null r) (rows people)"
    by blast
  then show ?thesis
    using r by (simp add: rs has_null_def)
qed


section \<open>\<^verbatim>\<open>load_iris_dataset\<close>\<close>



lemma getitem_Inr:
  "getitem df l = Inr c \<Longrightarrow> c \<in> set (columns df) \<and> name c = l"
  by (auto simp: getitem_def find_Some_iff split: option.splits)

lemma getitem_present:
  "l \<in> set (map name (columns df)) \<Longrightarrow> \<exists>c. getitem df l = Inr c"
  by (auto simp: getitem_def find_None_iff split: option.splits)










lemma species_frame_broken_iris: "species_frame broken_iris = Inl (KeyError ''target'')"
  by (simp add: species_frame_def broken_iris_def getitem_def)

lemma load_iris_dataset_eq:
  "load_iris_dataset w =
     (case species_frame (sklearn_iris w) of
        Inl e \<Rightarrow> (Inl e, w\<lparr>trace := trace w @ [LoadIris]\<rparr>)
      | Inr df \<Rightarrow> (Inr (Some df), w\<lparr>trace := trace w @ [LoadIris, Print iris_loaded_msg]\<rparr>))"
  by (simp add: load_iris_dataset_def load_iris_def emit_def print_str_def split: sum.splits)


lemma species_frame_iris_sample: "species_frame iris_sample = Inr iris_sample_species"
  by (simp add: species_frame_def iris_sample_def iris_sample_species_def getitem_def
        np_getitem_def np_item_def setitem_def drop_columns_def)



section \<open>\<^verbatim>\<open>basic_analysis\<close>\<close>

lemma lib_call_eq:
  "lib_call e w =
     (case raises w (trace w) e of
        None \<Rightarrow> (Inr (), w\<lparr>trace := trace w @ [e]\<rparr>)
      | Some x \<Rightarrow> (Inl x, w))"
  by (simp add: lib_call_def emit_def split: option.splits)

text \<open>The five ways through \<open>basic_analysis\<close>.\<close>

lemma basic_analysis_eq:
  "basic_analysis df w =
     (if columns df = []
      then (Inl (ValueError ''Cannot describe a DataFrame without columns''),
            w\<lparr>trace := trace w @ [Print summary_msg]\<rparr>)
      else
        (case raises w (trace w @ [Print summary_msg]) (PrintDescribe df) of
           Some x \<Rightarrow> (Inl x, w\<lparr>trace := trace w @ [Print summary_msg]\<rparr>)
         | None \<Rightarrow>
            (if filter categorical (columns df) \<noteq> [] \<and> filter numeric (columns df) \<noteq> []
             then
               (case raises w
                       (trace w @ [Print summary_msg, PrintDescribe df,
                                   Print (group_msg (name (filter categorical (columns df) ! 0)))])
                       (PrintGroupMean (name (filter categorical (columns df) ! 0)) df) of
                  Some x \<Rightarrow>
                    (Inl x,
                     w\<lparr>trace := trace w @
                        [Print summary_msg, PrintDescribe df,
                         Print (group_msg (name (filter categorical (columns df) ! 0)))]\<rparr>)
                | None \<Rightarrow>
                    (Inr (),
                     w\<lparr>trace := trace w @
                        [Print summary_msg, PrintDescribe df,
                         Print (group_msg (name (filter categorical (columns df) ! 0))),
                         PrintGroupMean (name (filter categorical (columns df) ! 0)) df,
                         Print (nl @ ''Observation:''),
                         Print (observation_msg (name (filter categorical (columns df) ! 0)))]\<rparr>))
             else
               (Inr (),
                w\<lparr>trace := trace w @ [Print summary_msg, PrintDescribe df, Print no_group_msg]\<rparr>))))"
  unfolding basic_analysis_def print_describe_def Let_def select_categorical select_numeric
  by (simp add: lib_call_eq print_str_def emit_def split: option.splits)


lemma basic_analysis_fields [simp]:
  "files (snd (basic_analysis df w)) = files w"
  "stdin (snd (basic_analysis df w)) = stdin w"
  "sklearn_iris (snd (basic_analysis df w)) = sklearn_iris w"
  "raises (snd (basic_analysis df w)) = raises w"
  by (simp_all add: basic_analysis_eq split: option.splits)

lemma basic_analysis_prefix: "prefix (trace w) (trace (snd (basic_analysis df w)))"
  by (simp add: basic_analysis_eq split: option.splits)

text \<open>
  C4, as the code has it. \<^verbatim>\<open>basic_analysis\<close> prints the header of the summary statistics
  and then the summary statistics of the dataframe (\<^verbatim>\<open>df.describe()\<close>) unless
  \<^verbatim>\<open>describe\<close> raises; on a dataframe without columns it raises \<^verbatim>\<open>ValueError\<close>, which
  leaves the function with the header as its only output. When \<^verbatim>\<open>describe\<close> has
  returned, the group-by mean is attempted (its header is printed) exactly when the
  dataframe has a categorical (object or category) column and a numeric column, and it is
  printed unless the grouping raises; the grouping is done on the same dataframe, by its
  first categorical column (no categorical column stands before it), with
  \<^verbatim>\<open>mean(numeric_only=True)\<close>. The function returns normally exactly when every one of
  these calls that it made has returned.
\<close>

theorem basic_analysis_describe_and_groupby:
  "(columns df = [] \<longrightarrow>
      basic_analysis df w =
        (Inl (ValueError ''Cannot describe a DataFrame without columns''),
         print_str summary_msg w)) \<and>
   (PrintDescribe df \<in> set (events_since w (snd (basic_analysis df w))) \<longleftrightarrow>
      columns df \<noteq> [] \<and>
      raises w (trace w @ [Print summary_msg]) (PrintDescribe df) = None) \<and>
   ((\<exists>g. Print (group_msg g) \<in> set (events_since w (snd (basic_analysis df w)))) \<longleftrightarrow>
      PrintDescribe df \<in> set (events_since w (snd (basic_analysis df w))) \<and>
      (\<exists>c\<in>set (columns df). categorical c) \<and> (\<exists>c\<in>set (columns df). numeric c)) \<and>
   ((\<exists>g d. PrintGroupMean g d \<in> set (events_since w (snd (basic_analysis df w)))) \<longleftrightarrow>
      (\<exists>g. Print (group_msg g) \<in> set (events_since w (snd (basic_analysis df w)))) \<and>
      raises w
        (trace w @ [Print summary_msg, PrintDescribe df,
                    Print (group_msg (name (filter categorical (columns df) ! 0)))])
        (PrintGroupMean (name (filter categorical (columns df) ! 0)) df) = None) \<and>
   (\<forall>g d. PrintGroupMean g d \<in> set (events_since w (snd (basic_analysis df w))) \<longrightarrow>
      d = df \<and>
      (\<exists>pre c post. columns df = pre @ c # post \<and> categorical c \<and> name c = g \<and>
         (\<forall>p\<in>set pre. \<not> categorical p))) \<and>
   (fst (basic_analysis df w) = Inr () \<longleftrightarrow>
      PrintDescribe df \<in> set (events_since w (snd (basic_analysis df w))) \<and>
      ((\<exists>g d. PrintGroupMean g d \<in> set (events_since w (snd (basic_analysis df w)))) \<or>
       \<not> ((\<exists>c\<in>set (columns df). categorical c) \<and> (\<exists>c\<in>set (columns df). numeric c))))"
proof -
  let ?es = "events_since w (snd (basic_analysis df w))"
  let ?cat = "filter categorical (columns df)"
  let ?num = "filter numeric (columns df)"
  let ?g = "name (?cat ! 0)"
  let ?d = "columns df \<noteq> [] \<and> raises w (trace w @ [Print summary_msg]) (PrintDescribe df) = None"
  let ?grp = "raises w (trace w @ [Print summary_msg, PrintDescribe df, Print (group_msg ?g)])
                (PrintGroupMean ?g df) = None"
  have ne: "(?cat \<noteq> [] \<and> ?num \<noteq> []) \<longleftrightarrow>
      (\<exists>c\<in>set (columns df). categorical c) \<and> (\<exists>c\<in>set (columns df). numeric c)"
    by (simp add: filter_empty_conv)
  have es: "?es =
      Print summary_msg #
      (if ?d then
         PrintDescribe df #
         (if ?cat \<noteq> [] \<and> ?num \<noteq> [] then
            Print (group_msg ?g) #
            (if ?grp then [PrintGroupMean ?g df, Print (nl @ ''Observation:''),
                           Print (observation_msg ?g)]
             else [])
          else [Print no_group_msg])
       else [])"
    by (rule events_since_append) (simp add: basic_analysis_eq split: option.splits)
  have res: "fst (basic_analysis df w) = Inr () \<longleftrightarrow> ?d \<and> ((?cat \<noteq> [] \<and> ?num \<noteq> []) \<longrightarrow> ?grp)"
    by (simp add: basic_analysis_eq split: option.splits)
  have a: "columns df = [] \<longrightarrow>
      basic_analysis df w =
        (Inl (ValueError ''Cannot describe a DataFrame without columns''),
         print_str summary_msg w)"
    by (simp add: basic_analysis_eq print_str_def emit_def)
  have b: "PrintDescribe df \<in> set ?es \<longleftrightarrow> ?d"
    unfolding es by simp
  have c: "(\<exists>g. Print (group_msg g) \<in> set ?es) \<longleftrightarrow> ?d \<and> ?cat \<noteq> [] \<and> ?num \<noteq> []"
    unfolding es
    by (auto simp: group_msg_def summary_msg_def no_group_msg_def observation_msg_def
          nl_def arrow_def)
  have d: "(\<exists>g d. PrintGroupMean g d \<in> set ?es) \<longleftrightarrow> ?d \<and> ?cat \<noteq> [] \<and> ?num \<noteq> [] \<and> ?grp"
    unfolding es by auto
  have e: "d = df \<and>
      (\<exists>pre c post. columns df = pre @ c # post \<and> categorical c \<and> name c = g \<and>
         (\<forall>p\<in>set pre. \<not> categorical p))"
    if "PrintGroupMean g d \<in> set ?es" for g d
  proof -
    from that d have ne: "?cat \<noteq> []"
      by blast
    from that have g: "g = ?g" and d: "d = df"
      unfolding es by (simp_all split: if_splits)
    from first_selected [OF ne] obtain pre c post where
      "columns df = pre @ c # post" "categorical c" "\<forall>p\<in>set pre. \<not> categorical p" "?cat ! 0 = c"
      by blast
    with d g show ?thesis
      by blast
  qed
  show ?thesis
    unfolding b c d res ne [symmetric] using a e by blast
qed

theorem basic_analysis_describe_and_groupby_witness:
  "PrintGroupMean ''species'' iris_sample_species
     \<in> set (events_since (sample_world [])
              (snd (basic_analysis iris_sample_species (sample_world [])))) \<and>
   fst (basic_analysis iris_sample_species (sample_world [])) = Inr () \<and>
   categorical (columns iris_sample_species ! 4) \<and>
   name (columns iris_sample_species ! 4) = ''species'' \<and>
   numeric (columns iris_sample_species ! 0)"
  using basic_analysis_describe_and_groupby [of iris_sample_species "sample_world []"]
  by (simp add: events_since_def basic_analysis_eq iris_sample_species_def
        categorical_def numeric_def sample_raises_def)

text \<open>
  C4 as stated fails: on a dataframe without columns the summary statistics are not
  printed. \<^verbatim>\<open>df.describe()\<close> raises \<^verbatim>\<open>ValueError\<close>, and \<^verbatim>\<open>basic_analysis\<close> passes the
  exception on after the header alone.
\<close>

theorem basic_analysis_describe_counterexample:
  "fst (basic_analysis no_columns (sample_world [])) =
     Inl (ValueError ''Cannot describe a DataFrame without columns'') \<and>
   PrintDescribe no_columns
     \<notin> set (events_since (sample_world []) (snd (basic_analysis no_columns (sample_world []))))"
  by (simp add: events_since_def basic_analysis_eq no_columns_def)

section \<open>\<^verbatim>\<open>visualize_data\<close>\<close>

lemma plt_append:
  "plt (cs @ ds) w = (case plt cs w of (Inl x, w') \<Rightarrow> (Inl x, w') | (Inr u, w') \<Rightarrow> plt ds w')"
  by (induction cs arbitrary: w) (simp_all split: prod.splits sum.splits)

text \<open>A run of \<open>plt\<close>: the calls before the first one that raises are made, in their order.\<close>

lemma plt_run:
  "\<exists>k\<le>length cs.
      snd (plt cs w) = w\<lparr>trace := trace w @ map Plt (take k cs)\<rparr> \<and>
      (\<forall>i<k. raises w (trace w @ map Plt (take i cs)) (Plt (cs ! i)) = None) \<and>
      (if k = length cs then fst (plt cs w) = Inr ()
       else \<exists>x. raises w (trace w @ map Plt (take k cs)) (Plt (cs ! k)) = Some x \<and>
                fst (plt cs w) = Inl x)"
proof (induction cs arbitrary: w)
  case Nil
  show ?case by simp
next
  case (Cons c cs)
  show ?case
  proof (cases "raises w (trace w) (Plt c)")
    case (Some x)
    then have "plt (c # cs) w = (Inl x, w)"
      by (simp add: lib_call_eq)
    with Some show ?thesis
      by (intro exI [of _ 0]) simp
  next
    case None
    let ?w = "w\<lparr>trace := trace w @ [Plt c]\<rparr>"
    from None have eq: "plt (c # cs) w = plt cs ?w"
      by (simp add: lib_call_eq)
    from Cons.IH [of ?w] obtain k where k: "k \<le> length cs"
      "snd (plt cs ?w) = ?w\<lparr>trace := trace ?w @ map Plt (take k cs)\<rparr>"
      "\<forall>i<k. raises ?w (trace ?w @ map Plt (take i cs)) (Plt (cs ! i)) = None"
      "if k = length cs then fst (plt cs ?w) = Inr ()
       else \<exists>x. raises ?w (trace ?w @ map Plt (take k cs)) (Plt (cs ! k)) = Some x \<and>
                fst (plt cs ?w) = Inl x"
      by blast
    have all: "raises w (trace w @ map Plt (take i (c # cs))) (Plt ((c # cs) ! i)) = None"
      if "i < Suc k" for i
    proof (cases i)
      case 0
      with None show ?thesis by simp
    next
      case (Suc j)
      with that k(3) show ?thesis by simp
    qed
    show ?thesis
    proof (intro exI [of _ "Suc k"] conjI)
      show "Suc k \<le> length (c # cs)"
        using k(1) by simp
      show "snd (plt (c # cs) w) = w\<lparr>trace := trace w @ map Plt (take (Suc k) (c # cs))\<rparr>"
        unfolding eq k(2) by simp
      show "\<forall>i<Suc k. raises w (trace w @ map Plt (take i (c # cs))) (Plt ((c # cs) ! i)) = None"
        using all by blast
      show "if Suc k = length (c # cs) then fst (plt (c # cs) w) = Inr ()
            else \<exists>x. raises w (trace w @ map Plt (take (Suc k) (c # cs))) (Plt ((c # cs) ! Suc k)) = Some x \<and>
                fst (plt (c # cs) w) = Inl x"
        unfolding eq using k(4) by (simp split: if_splits)
    qed
  qed
qed

lemma visualize_data_few:
  "length (filter numeric (columns df)) < 2 \<Longrightarrow>
     visualize_data df w = (Inr (), print_str not_enough_msg w)"
  unfolding visualize_data_def Let_def select_numeric by simp

lemma visualize_data_plt:
  "2 \<le> length (filter numeric (columns df)) \<Longrightarrow> visualize_data df w = plt (chart_calls df) w"
  unfolding visualize_data_def Let_def select_numeric select_categorical chart_calls_def
  by (simp add: plt_append split: prod.splits sum.splits)


lemma plt_fields [simp]:
  "files (snd (plt cs w)) = files w"
  "stdin (snd (plt cs w)) = stdin w"
  "sklearn_iris (snd (plt cs w)) = sklearn_iris w"
  "raises (snd (plt cs w)) = raises w"
  using plt_run [of cs w] by auto

lemma plt_prefix: "prefix (trace w) (trace (snd (plt cs w)))"
  using plt_run [of cs w] by auto

lemma visualize_data_fields [simp]:
  "files (snd (visualize_data df w)) = files w"
  "stdin (snd (visualize_data df w)) = stdin w"
  "sklearn_iris (snd (visualize_data df w)) = sklearn_iris w"
  "raises (snd (visualize_data df w)) = raises w"
  by (cases "length (filter numeric (columns df)) < 2";
      simp add: visualize_data_few visualize_data_plt)+

lemma visualize_data_prefix: "prefix (trace w) (trace (snd (visualize_data df w)))"
  by (cases "length (filter numeric (columns df)) < 2")
     (simp_all add: visualize_data_few visualize_data_plt plt_prefix)










lemma plt_all_return:
  "\<forall>c\<in>set cs. \<forall>h. raises w h (Plt c) = None \<Longrightarrow>
     plt cs w = (Inr (), w\<lparr>trace := trace w @ map Plt cs\<rparr>)"
  by (induction cs arbitrary: w) (simp_all add: lib_call_eq)



section \<open>\<^verbatim>\<open>load_dataset\<close>\<close>

text \<open>
  The five ways through \<^verbatim>\<open>load_dataset\<close>: end of file at the prompt, an empty answer, a
  path that does not exist, a path on which \<^verbatim>\<open>read_csv\<close> raises, and a path it reads. The
  lemmas on the three paths that fall back say what happens when \<^verbatim>\<open>load_iris_dataset\<close>
  raises as well: on the path that does not exist, its first call stands inside the
  \<^verbatim>\<open>try\<close> block, so the handler prints its message and calls it again.
\<close>

lemma load_dataset_eof:
  assumes "stdin w = []"
  shows "load_dataset w = (Inl EOFError, w\<lparr>trace := trace w @ [Print question_msg, Input prompt_msg]\<rparr>)"
  using assms by (simp add: load_dataset_def input_line_def emit_def print_str_def)

lemma load_dataset_default:
  assumes "stdin w = line # rest" and "strip line = []"
  shows "load_dataset w =
     (case species_frame (sklearn_iris w) of
        Inl e \<Rightarrow> (Inl e, w\<lparr>stdin := rest,
                    trace := trace w @ [Print question_msg, Input prompt_msg, LoadIris]\<rparr>)
      | Inr df \<Rightarrow> (Inr (Some df), w\<lparr>stdin := rest,
                    trace := trace w @ [Print question_msg, Input prompt_msg, LoadIris,
                                        Print iris_loaded_msg]\<rparr>))"
  using assms
  by (simp add: load_dataset_def input_line_def load_iris_dataset_eq emit_def print_str_def
        split: sum.splits)

lemma load_dataset_not_found:
  assumes "stdin w = line # rest" and "strip line \<noteq> []" and "files w (strip line) = None"
  shows "load_dataset w =
     (case species_frame (sklearn_iris w) of
        Inl e \<Rightarrow> (Inl e, w\<lparr>stdin := rest,
                    trace := trace w @ [Print question_msg, Input prompt_msg,
                                        PathExists (strip line),
                                        Print (file_not_found_msg (strip line)), LoadIris,
                                        Print (error_loading_msg e), LoadIris]\<rparr>)
      | Inr df \<Rightarrow> (Inr (Some df), w\<lparr>stdin := rest,
                    trace := trace w @ [Print question_msg, Input prompt_msg,
                                        PathExists (strip line),
                                        Print (file_not_found_msg (strip line)), LoadIris,
                                        Print iris_loaded_msg]\<rparr>))"
  using assms
  by (simp add: Let_def load_dataset_def load_dataset_try_def input_line_def os_path_exists_def
        load_iris_dataset_eq emit_def print_str_def split: sum.splits)

lemma load_dataset_csv_error:
  assumes "stdin w = line # rest" and "strip line \<noteq> []"
    and "files w (strip line) = Some (Inl e)"
  shows "load_dataset w =
     (case species_frame (sklearn_iris w) of
        Inl e' \<Rightarrow> (Inl e', w\<lparr>stdin := rest,
                    trace := trace w @ [Print question_msg, Input prompt_msg,
                                        PathExists (strip line), ReadCsv (strip line),
                                        Print (error_loading_msg e), LoadIris]\<rparr>)
      | Inr df \<Rightarrow> (Inr (Some df), w\<lparr>stdin := rest,
                    trace := trace w @ [Print question_msg, Input prompt_msg,
                                        PathExists (strip line), ReadCsv (strip line),
                                        Print (error_loading_msg e), LoadIris,
                                        Print iris_loaded_msg]\<rparr>))"
  using assms
  by (simp add: Let_def load_dataset_def load_dataset_try_def input_line_def os_path_exists_def
        pd_read_csv_def load_iris_dataset_eq emit_def print_str_def split: sum.splits)

lemma load_dataset_csv:
  assumes "stdin w = line # rest" and "strip line \<noteq> []"
    and "files w (strip line) = Some (Inr df)"
  shows "load_dataset w =
     (Inr (Some df), w\<lparr>stdin := rest,
        trace := trace w @ [Print question_msg, Input prompt_msg,
                            PathExists (strip line), ReadCsv (strip line),
                            Print (loaded_msg (strip line))]\<rparr>)"
  using assms
  by (simp add: Let_def load_dataset_def load_dataset_try_def input_line_def os_path_exists_def
        pd_read_csv_def emit_def print_str_def)

lemma load_iris_dataset_value:
  "fst (load_iris_dataset w) = (case species_frame (sklearn_iris w) of Inl e \<Rightarrow> Inl e | Inr df \<Rightarrow> Inr (Some df))"
  by (simp add: load_iris_dataset_eq split: sum.splits)


text \<open>
  C1, as the code has it. When \<^verbatim>\<open>input\<close> returns a line: an answer that is empty once
  stripped, a path that does not exist and a path on which \<^verbatim>\<open>read_csv\<close> raises all give what
  \<^verbatim>\<open>load_iris_dataset\<close> gives, and a path that \<^verbatim>\<open>read_csv\<close> reads gives its dataframe. An
  error leaves \<^verbatim>\<open>load_dataset\<close> in two cases only. At end of file on standard input
  \<^verbatim>\<open>input\<close> raises \<^verbatim>\<open>EOFError\<close>; the call stands before the \<^verbatim>\<open>try\<close> block, and
  \<^verbatim>\<open>load_dataset\<close> passes the error on to its caller. And when a line was read, an error
  that leaves \<^verbatim>\<open>load_dataset\<close> is the error that \<^verbatim>\<open>load_iris_dataset\<close> raises: the fallback
  itself has no handler around it.
\<close>

theorem load_dataset_falls_back:
  "(stdin w = [] \<longrightarrow> fst (load_dataset w) = Inl EOFError) \<and>
   (\<forall>line rest. stdin w = line # rest \<longrightarrow>
      (strip line = [] \<longrightarrow> fst (load_dataset w) = fst (load_iris_dataset w)) \<and>
      (strip line \<noteq> [] \<and> files w (strip line) = None \<longrightarrow>
         fst (load_dataset w) = fst (load_iris_dataset w)) \<and>
      (\<forall>e. strip line \<noteq> [] \<and> files w (strip line) = Some (Inl e) \<longrightarrow>
         fst (load_dataset w) = fst (load_iris_dataset w)) \<and>
      (\<forall>df. strip line \<noteq> [] \<and> files w (strip line) = Some (Inr df) \<longrightarrow>
         fst (load_dataset w) = Inr (Some df)) \<and>
      (\<forall>e. fst (load_dataset w) = Inl e \<longrightarrow> fst (load_iris_dataset w) = Inl e))"
proof -
  have eof: "fst (load_dataset w) = Inl EOFError" if "stdin w = []"
    by (simp add: load_dataset_eof [OF that])
  have dflt: "fst (load_dataset w) = fst (load_iris_dataset w)"
    if "stdin w = line # rest" "strip line = []" for line rest
    by (simp add: load_dataset_default [OF that] load_iris_dataset_value split: sum.splits)
  have nf: "fst (load_dataset w) = fst (load_iris_dataset w)"
    if "stdin w = line # rest" "strip line \<noteq> []" "files w (strip line) = None" for line rest
    by (simp add: load_dataset_not_found [OF that] load_iris_dataset_value split: sum.splits)
  have err: "fst (load_dataset w) = fst (load_iris_dataset w)"
    if "stdin w = line # rest" "strip line \<noteq> []" "files w (strip line) = Some (Inl e)"
    for line rest e
    by (simp add: load_dataset_csv_error [OF that] load_iris_dataset_value split: sum.splits)
  have csv: "fst (load_dataset w) = Inr (Some df)"
    if "stdin w = line # rest" "strip line \<noteq> []" "files w (strip line) = Some (Inr df)"
    for line rest df
    by (simp add: load_dataset_csv [OF that])
  have ret: "fst (load_iris_dataset w) = Inl e"
    if "stdin w = line # rest" "fst (load_dataset w) = Inl e" for line rest e
  proof (cases "strip line = []")
    case True
    with dflt that show ?thesis by simp
  next
    case False
    show ?thesis
    proof (cases "files w (strip line)")
      case None
      with nf that False show ?thesis by simp
    next
      case (Some r)
      show ?thesis
      proof (cases r)
        case (Inl x)
        with err [OF that(1) False] Some that(2) show ?thesis by simp
      next
        case (Inr df)
        with csv [OF that(1) False] Some that(2) show ?thesis by simp
      qed
    qed
  qed
  from eof dflt nf err csv ret show ?thesis
    by blast
qed

lemma strip_people: "strip ''people.csv'' = ''people.csv''"
  by (simp add: strip_def lstrip.simps rstrip.simps whitespace_def suffix_to_prefix)

lemma strip_rates: "strip ''rates.csv'' = ''rates.csv''"
  by (simp add: strip_def lstrip.simps rstrip.simps whitespace_def suffix_to_prefix)

lemma strip_header: "strip ''header.csv'' = ''header.csv''"
  by (simp add: strip_def lstrip.simps rstrip.simps whitespace_def suffix_to_prefix)

lemma strip_padded: "strip ''  empty.csv '' = ''empty.csv''"
  by (simp add: strip_def lstrip.simps rstrip.simps whitespace_def suffix_to_prefix)

lemma strip_blank: "strip ''  '' = []"
  by (simp add: strip_def lstrip.simps rstrip.simps whitespace_def suffix_to_prefix)

lemma strip_missing: "strip ''missing.csv'' = ''missing.csv''"
  by (simp add: strip_def lstrip.simps rstrip.simps whitespace_def suffix_to_prefix)

text \<open>A no-break space (U+00A0, the bytes C2 A0) before the path and an ideographic space
  (U+3000, the bytes E3 80 80) after it are stripped as well.\<close>

lemma strip_unicode:
  "strip ([CHR 0xC2, CHR 0xA0] @ ''people.csv'' @ [CHR 0xE3, CHR 0x80, CHR 0x80]) = ''people.csv''"
  by (simp add: strip_def lstrip.simps rstrip.simps whitespace_def suffix_to_prefix)

lemma sample_files_lookup:
  "sample_files ''people.csv'' = Some (Inr people)"
  "sample_files ''rates.csv'' = Some (Inr rates)"
  "sample_files ''empty.csv'' = Some (Inl (CsvError ''No columns to parse from file''))"
  "sample_files ''header.csv'' = Some (Inr header_only)"
  "sample_files ''missing.csv'' = None"
  by (simp_all add: sample_files_def)

theorem load_dataset_falls_back_witness:
  "fst (load_dataset (sample_world [''people.csv''])) = Inr (Some people) \<and>
   fst (load_dataset
          (sample_world [[CHR 0xC2, CHR 0xA0] @ ''people.csv'' @ [CHR 0xE3, CHR 0x80, CHR 0x80]])) =
     Inr (Some people) \<and>
   fst (load_dataset (sample_world [''  empty.csv ''])) = Inr (Some iris_sample_species) \<and>
   fst (load_dataset (sample_world [''missing.csv''])) = Inr (Some iris_sample_species) \<and>
   fst (load_dataset (sample_world [''  ''])) = Inr (Some iris_sample_species) \<and>
   fst (load_dataset (sample_world [])) = Inl EOFError"
proof -
  have iris: "fst (load_iris_dataset (sample_world ls)) = Inr (Some iris_sample_species)" for ls
    by (simp add: load_iris_dataset_value species_frame_iris_sample)
  have a: "fst (load_dataset (sample_world [''people.csv''])) = Inr (Some people)"
    using load_dataset_falls_back [of "sample_world [''people.csv'']"]
    by (simp add: strip_people sample_files_lookup)
  have u: "fst (load_dataset
          (sample_world [[CHR 0xC2, CHR 0xA0] @ ''people.csv'' @ [CHR 0xE3, CHR 0x80, CHR 0x80]])) =
     Inr (Some people)"
    using load_dataset_falls_back
      [of "sample_world [[CHR 0xC2, CHR 0xA0] @ ''people.csv'' @ [CHR 0xE3, CHR 0x80, CHR 0x80]]"]
    by (simp add: strip_unicode sample_files_lookup del: append.simps)
  have b: "fst (load_dataset (sample_world [''  empty.csv ''])) = Inr (Some iris_sample_species)"
    using load_dataset_falls_back [of "sample_world [''  empty.csv '']"]
    by (simp add: strip_padded sample_files_lookup iris)
  have c: "fst (load_dataset (sample_world [''missing.csv''])) = Inr (Some iris_sample_species)"
    using load_dataset_falls_back [of "sample_world [''missing.csv'']"]
    by (simp add: strip_missing sample_files_lookup iris)
  have d: "fst (load_dataset (sample_world [''  ''])) = Inr (Some iris_sample_species)"
    using load_dataset_falls_back [of "sample_world [''  '']"]
    by (simp add: strip_blank iris)
  have e: "fst (load_dataset (sample_world [])) = Inl EOFError"
    using load_dataset_falls_back [of "sample_world []"]
    by simp
  from a u b c d e show ?thesis
    by blast
qed

text \<open>
  C1 as stated fails: with standard input at end of file, dataset acquisition ends in an
  \<^verbatim>\<open>EOFError\<close>; and where the Iris frame has no \<^verbatim>\<open>target\<close> column, the fallback raises
  \<^verbatim>\<open>KeyError\<close>, inside the \<^verbatim>\<open>try\<close> block and again in its handler, and dataset acquisition
  ends in that error.
\<close>

theorem load_dataset_eof_counterexample:
  "fst (load_dataset (sample_world [])) = Inl EOFError \<and>
   fst (load_dataset (broken_world [''missing.csv''])) = Inl (KeyError ''target'')"
  by (simp add: load_dataset_eof load_dataset_not_found strip_missing sample_files_lookup
        species_frame_broken_iris)

lemma messages_differ: "file_not_found_msg c \<noteq> error_loading_msg e"
  by (simp add: file_not_found_msg_def error_loading_msg_def cross_def)

lemma load_dataset_msgs [simp]:
  "error_loading_msg e \<noteq> question_msg"
  "error_loading_msg e \<noteq> iris_loaded_msg"
  "error_loading_msg e \<noteq> loaded_msg c"
  "error_loading_msg e \<noteq> file_not_found_msg c"
  "file_not_found_msg c \<noteq> question_msg"
  "file_not_found_msg c \<noteq> iris_loaded_msg"
  "file_not_found_msg c \<noteq> loaded_msg c'"
  "file_not_found_msg c \<noteq> error_loading_msg e"
  by (simp_all add: file_not_found_msg_def error_loading_msg_def question_msg_def
        iris_loaded_msg_def loaded_msg_def cross_def tick_def)

text \<open>
  C2, as the code has it. Dataset acquisition reports two things. A path that does not
  exist is reported as \<^verbatim>\<open>File not found\<close>, without a call of \<^verbatim>\<open>read_csv\<close>, and
  \<^verbatim>\<open>load_iris_dataset\<close> is called inside the \<^verbatim>\<open>try\<close> block. Every exception raised inside the
  \<^verbatim>\<open>try\<close> block is caught and reported as \<^verbatim>\<open>Error loading CSV\<close> with the text of the
  exception, and \<^verbatim>\<open>load_iris_dataset\<close> is called by the handler: this is an exception of
  \<^verbatim>\<open>read_csv\<close> on an existing path, and it is also an exception of the \<^verbatim>\<open>load_iris_dataset\<close>
  call made for the path that does not exist, which is then reported under both messages.
  Nothing else is handled: the \<^verbatim>\<open>EOFError\<close> of \<^verbatim>\<open>input\<close>, and an exception of
  \<^verbatim>\<open>load_iris_dataset\<close> when the handler calls it or after an empty answer, leave
  \<^verbatim>\<open>load_dataset\<close>. The theorem gives the result and the events of every run.
\<close>

theorem load_dataset_error_handling:
  "(stdin w = [] \<longrightarrow>
      load_dataset w =
        (Inl EOFError, w\<lparr>trace := trace w @ [Print question_msg, Input prompt_msg]\<rparr>)) \<and>
   (\<forall>line rest. stdin w = line # rest \<longrightarrow>
      (strip line = [] \<longrightarrow>
         load_dataset w =
           (case species_frame (sklearn_iris w) of
              Inl x \<Rightarrow>
                (Inl x,
                 w\<lparr>stdin := rest,
                   trace := trace w @ [Print question_msg, Input prompt_msg, LoadIris]\<rparr>)
            | Inr iris \<Rightarrow>
                (Inr (Some iris),
                 w\<lparr>stdin := rest,
                   trace := trace w @ [Print question_msg, Input prompt_msg, LoadIris,
                                       Print iris_loaded_msg]\<rparr>))) \<and>
      (strip line \<noteq> [] \<and> files w (strip line) = None \<longrightarrow>
         load_dataset w =
           (case species_frame (sklearn_iris w) of
              Inl x \<Rightarrow>
                (Inl x,
                 w\<lparr>stdin := rest,
                   trace := trace w @ [Print question_msg, Input prompt_msg,
                                       PathExists (strip line),
                                       Print (file_not_found_msg (strip line)), LoadIris,
                                       Print (error_loading_msg x), LoadIris]\<rparr>)
            | Inr iris \<Rightarrow>
                (Inr (Some iris),
                 w\<lparr>stdin := rest,
                   trace := trace w @ [Print question_msg, Input prompt_msg,
                                       PathExists (strip line),
                                       Print (file_not_found_msg (strip line)), LoadIris,
                                       Print iris_loaded_msg]\<rparr>))) \<and>
      (\<forall>e. strip line \<noteq> [] \<and> files w (strip line) = Some (Inl e) \<longrightarrow>
         load_dataset w =
           (case species_frame (sklearn_iris w) of
              Inl x \<Rightarrow>
                (Inl x,
                 w\<lparr>stdin := rest,
                   trace := trace w @ [Print question_msg, Input prompt_msg,
                                       PathExists (strip line), ReadCsv (strip line),
                                       Print (error_loading_msg e), LoadIris]\<rparr>)
            | Inr iris \<Rightarrow>
                (Inr (Some iris),
                 w\<lparr>stdin := rest,
                   trace := trace w @ [Print question_msg, Input prompt_msg,
                                       PathExists (strip line), ReadCsv (strip line),
                                       Print (error_loading_msg e), LoadIris,
                                       Print iris_loaded_msg]\<rparr>)) \<and>
         error_loading_msg e \<noteq> file_not_found_msg (strip line)) \<and>
      (\<forall>df. strip line \<noteq> [] \<and> files w (strip line) = Some (Inr df) \<longrightarrow>
         load_dataset w =
           (Inr (Some df),
            w\<lparr>stdin := rest,
              trace := trace w @ [Print question_msg, Input prompt_msg,
                                  PathExists (strip line), ReadCsv (strip line),
                                  Print (loaded_msg (strip line))]\<rparr>))) \<and>
   ((\<exists>c. Print (file_not_found_msg c) \<in> set (events_since w (snd (load_dataset w)))) \<longleftrightarrow>
      (\<exists>line rest. stdin w = line # rest \<and> strip line \<noteq> [] \<and> files w (strip line) = None)) \<and>
   ((\<exists>e. Print (error_loading_msg e) \<in> set (events_since w (snd (load_dataset w)))) \<longleftrightarrow>
      (\<exists>line rest. stdin w = line # rest \<and> strip line \<noteq> [] \<and>
         ((\<exists>e. files w (strip line) = Some (Inl e)) \<or>
          files w (strip line) = None \<and> (\<exists>x. species_frame (sklearn_iris w) = Inl x))))"
proof -
  let ?es = "events_since w (snd (load_dataset w))"
  let ?nf = "\<exists>c. Print (file_not_found_msg c) \<in> set ?es"
  let ?el = "\<exists>e. Print (error_loading_msg e) \<in> set ?es"
  have eof: "\<not> ?nf \<and> \<not> ?el" if "stdin w = []"
    by (simp add: load_dataset_eof [OF that] events_since_def)
  have dflt: "\<not> ?nf \<and> \<not> ?el" if "stdin w = line # rest" "strip line = []" for line rest
    by (simp add: load_dataset_default [OF that] events_since_def split: sum.splits)
  have nf: "?nf \<and> (?el \<longleftrightarrow> (\<exists>x. species_frame (sklearn_iris w) = Inl x))"
    if "stdin w = line # rest" "strip line \<noteq> []" "files w (strip line) = None" for line rest
    by (cases "species_frame (sklearn_iris w)")
       (auto simp: load_dataset_not_found [OF that] events_since_def)
  have err: "\<not> ?nf \<and> ?el"
    if "stdin w = line # rest" "strip line \<noteq> []" "files w (strip line) = Some (Inl e)"
    for line rest e
    by (cases "species_frame (sklearn_iris w)")
       (auto simp: load_dataset_csv_error [OF that] events_since_def)
  have csv: "\<not> ?nf \<and> \<not> ?el"
    if "stdin w = line # rest" "strip line \<noteq> []" "files w (strip line) = Some (Inr df)"
    for line rest df
    by (simp add: load_dataset_csv [OF that] events_since_def)
  have a: "?nf \<longleftrightarrow>
      (\<exists>line rest. stdin w = line # rest \<and> strip line \<noteq> [] \<and> files w (strip line) = None)"
  proof (cases "stdin w")
    case Nil
    with eof show ?thesis by simp
  next
    case (Cons line rest)
    show ?thesis
    proof (cases "strip line = []")
      case True
      with dflt [OF Cons] Cons show ?thesis by simp
    next
      case False
      show ?thesis
      proof (cases "files w (strip line)")
        case None
        with nf [OF Cons False] Cons False show ?thesis by simp
      next
        case (Some r)
        with err [OF Cons False] csv [OF Cons False] Cons False show ?thesis
          by (cases r) simp_all
      qed
    qed
  qed
  have b: "?el \<longleftrightarrow>
      (\<exists>line rest. stdin w = line # rest \<and> strip line \<noteq> [] \<and>
         ((\<exists>e. files w (strip line) = Some (Inl e)) \<or>
          files w (strip line) = None \<and> (\<exists>x. species_frame (sklearn_iris w) = Inl x)))"
  proof (cases "stdin w")
    case Nil
    with eof show ?thesis by simp
  next
    case (Cons line rest)
    show ?thesis
    proof (cases "strip line = []")
      case True
      with dflt [OF Cons] Cons show ?thesis by simp
    next
      case False
      show ?thesis
      proof (cases "files w (strip line)")
        case None
        with nf [OF Cons False] Cons False show ?thesis by simp
      next
        case (Some r)
        with err [OF Cons False] csv [OF Cons False] Cons False show ?thesis
          by (cases r) simp_all
      qed
    qed
  qed
  show ?thesis
    apply (intro conjI allI impI)
    subgoal by (rule load_dataset_eof)
    subgoal by (rule load_dataset_default)
    subgoal by (rule load_dataset_not_found) simp_all
    subgoal by (rule load_dataset_csv_error) simp_all
    subgoal by (rule messages_differ [symmetric])
    subgoal by (rule load_dataset_csv) simp_all
    subgoal by (rule a)
    subgoal by (rule b)
    done
qed


theorem load_dataset_error_handling_witness:
  "load_dataset (sample_world [''missing.csv'']) =
     (Inr (Some iris_sample_species),
      (sample_world [])\<lparr>trace := [Print question_msg, Input prompt_msg,
          PathExists ''missing.csv'', Print (file_not_found_msg ''missing.csv''),
          LoadIris, Print iris_loaded_msg]\<rparr>) \<and>
   load_dataset (sample_world [''people.csv'']) =
     (Inr (Some people),
      (sample_world [])\<lparr>trace := [Print question_msg, Input prompt_msg,
          PathExists ''people.csv'', ReadCsv ''people.csv'',
          Print (loaded_msg ''people.csv'')]\<rparr>) \<and>
   load_dataset (sample_world []) =
     (Inl EOFError, (sample_world [])\<lparr>trace := [Print question_msg, Input prompt_msg]\<rparr>)"
proof -
  note runs = load_dataset_error_handling [THEN conjunct2, THEN conjunct1, rule_format]
  have a: "load_dataset (sample_world [''missing.csv'']) =
     (Inr (Some iris_sample_species),
      (sample_world [])\<lparr>trace := [Print question_msg, Input prompt_msg,
          PathExists ''missing.csv'', Print (file_not_found_msg ''missing.csv''),
          LoadIris, Print iris_loaded_msg]\<rparr>)"
    using runs [of "sample_world [''missing.csv'']" "''missing.csv''" "[]",
        THEN conjunct2, THEN conjunct1]
    by (simp add: strip_missing sample_files_lookup species_frame_iris_sample sample_world_def)
  have b: "load_dataset (sample_world [''people.csv'']) =
     (Inr (Some people),
      (sample_world [])\<lparr>trace := [Print question_msg, Input prompt_msg,
          PathExists ''people.csv'', ReadCsv ''people.csv'',
          Print (loaded_msg ''people.csv'')]\<rparr>)"
    using runs [of "sample_world [''people.csv'']" "''people.csv''" "[]",
        THEN conjunct2, THEN conjunct2, THEN conjunct2, rule_format, of people]
    by (simp add: strip_people sample_files_lookup sample_world_def)
  have c: "load_dataset (sample_world []) =
     (Inl EOFError, (sample_world [])\<lparr>trace := [Print question_msg, Input prompt_msg]\<rparr>)"
    using load_dataset_error_handling [of "sample_world []", THEN conjunct1]
    by simp
  from a b c show ?thesis by blast
qed

text \<open>
  C2 as stated fails twice. The file \<^verbatim>\<open>empty.csv\<close> is found, \<^verbatim>\<open>read_csv\<close> raises on it, and the
  program handles this second error condition under a message of its own. And where
  \<^verbatim>\<open>load_iris_dataset\<close> raises, a path that does not exist is reported as not found and then
  as an error loading the CSV, with the text of the \<^verbatim>\<open>KeyError\<close> and without a call of
  \<^verbatim>\<open>read_csv\<close>; the second call of \<^verbatim>\<open>load_iris_dataset\<close> raises again, unhandled.
\<close>

theorem load_dataset_second_error_counterexample:
  "files (sample_world [''  empty.csv '']) (strip ''  empty.csv '') =
     Some (Inl (CsvError ''No columns to parse from file'')) \<and>
   load_dataset (sample_world [''  empty.csv '']) =
     (Inr (Some iris_sample_species),
      (sample_world [])\<lparr>trace := [Print question_msg, Input prompt_msg,
          PathExists ''empty.csv'', ReadCsv ''empty.csv'',
          Print (error_loading_msg (CsvError ''No columns to parse from file'')),
          LoadIris, Print iris_loaded_msg]\<rparr>) \<and>
   error_loading_msg (CsvError ''No columns to parse from file'') \<noteq>
     file_not_found_msg ''empty.csv'' \<and>
   files (broken_world [''missing.csv'']) (strip ''missing.csv'') = None \<and>
   load_dataset (broken_world [''missing.csv'']) =
     (Inl (KeyError ''target''),
      (broken_world [])\<lparr>trace := [Print question_msg, Input prompt_msg,
          PathExists ''missing.csv'', Print (file_not_found_msg ''missing.csv''),
          LoadIris, Print (error_loading_msg (KeyError ''target'')), LoadIris]\<rparr>)"
proof -
  have f: "files (sample_world [''  empty.csv '']) (strip ''  empty.csv '') =
     Some (Inl (CsvError ''No columns to parse from file''))"
    by (simp add: strip_padded sample_files_lookup)
  have s: "stdin (sample_world [''  empty.csv '']) = [''  empty.csv '']"
    by simp
  have n: "strip ''  empty.csv '' \<noteq> []"
    by (simp add: strip_padded)
  from load_dataset_csv_error [OF s n f]
  have a: "load_dataset (sample_world [''  empty.csv '']) =
     (Inr (Some iris_sample_species),
      (sample_world [])\<lparr>trace := [Print question_msg, Input prompt_msg,
          PathExists ''empty.csv'', ReadCsv ''empty.csv'',
          Print (error_loading_msg (CsvError ''No columns to parse from file'')),
          LoadIris, Print iris_loaded_msg]\<rparr>)"
    by (simp add: species_frame_iris_sample strip_padded sample_world_def)
  have g: "files (broken_world [''missing.csv'']) (strip ''missing.csv'') = None"
    by (simp add: strip_missing sample_files_lookup)
  have s': "stdin (broken_world [''missing.csv'']) = [''missing.csv'']"
    by simp
  have n': "strip ''missing.csv'' \<noteq> []"
    by (simp add: strip_missing)
  from load_dataset_not_found [OF s' n' g]
  have b: "load_dataset (broken_world [''missing.csv'']) =
     (Inl (KeyError ''target''),
      (broken_world [])\<lparr>trace := [Print question_msg, Input prompt_msg,
          PathExists ''missing.csv'', Print (file_not_found_msg ''missing.csv''),
          LoadIris, Print (error_loading_msg (KeyError ''target'')), LoadIris]\<rparr>)"
    by (simp add: species_frame_broken_iris strip_missing broken_world_def)
  from f a g b show ?thesis
    by simp
qed

text \<open>The eight runs of \<open>load_dataset\<close>, by their events.\<close>

lemma load_dataset_cases [case_names eof default default_raises not_found not_found_raises
    csv_error csv_error_raises csv]:
  obtains
    "load_dataset w = (Inl EOFError, w\<lparr>trace := trace w @ [Print question_msg, Input prompt_msg]\<rparr>)"
  | rest df where
    "species_frame (sklearn_iris w) = Inr df"
    "load_dataset w = (Inr (Some df), w\<lparr>stdin := rest,
        trace := trace w @ [Print question_msg, Input prompt_msg, LoadIris, Print iris_loaded_msg]\<rparr>)"
  | rest e where
    "species_frame (sklearn_iris w) = Inl e"
    "load_dataset w = (Inl e, w\<lparr>stdin := rest,
        trace := trace w @ [Print question_msg, Input prompt_msg, LoadIris]\<rparr>)"
  | rest c df where
    "species_frame (sklearn_iris w) = Inr df"
    "load_dataset w = (Inr (Some df), w\<lparr>stdin := rest,
        trace := trace w @ [Print question_msg, Input prompt_msg, PathExists c,
                            Print (file_not_found_msg c), LoadIris, Print iris_loaded_msg]\<rparr>)"
  | rest c e where
    "species_frame (sklearn_iris w) = Inl e"
    "load_dataset w = (Inl e, w\<lparr>stdin := rest,
        trace := trace w @ [Print question_msg, Input prompt_msg, PathExists c,
                            Print (file_not_found_msg c), LoadIris,
                            Print (error_loading_msg e), LoadIris]\<rparr>)"
  | rest c x df where
    "species_frame (sklearn_iris w) = Inr df"
    "load_dataset w = (Inr (Some df), w\<lparr>stdin := rest,
        trace := trace w @ [Print question_msg, Input prompt_msg, PathExists c, ReadCsv c,
                            Print (error_loading_msg x), LoadIris, Print iris_loaded_msg]\<rparr>)"
  | rest c x e where
    "species_frame (sklearn_iris w) = Inl e"
    "load_dataset w = (Inl e, w\<lparr>stdin := rest,
        trace := trace w @ [Print question_msg, Input prompt_msg, PathExists c, ReadCsv c,
                            Print (error_loading_msg x), LoadIris]\<rparr>)"
  | rest c df where
    "load_dataset w = (Inr (Some df), w\<lparr>stdin := rest,
        trace := trace w @ [Print question_msg, Input prompt_msg, PathExists c, ReadCsv c,
                            Print (loaded_msg c)]\<rparr>)"
proof (cases "stdin w")
  case Nil
  from load_dataset_eof [OF this] that(1) show ?thesis by blast
next
  case (Cons line rest)
  show ?thesis
  proof (cases "strip line = []")
    case True
    from load_dataset_default [OF Cons True] that(2,3) show ?thesis
      by (cases "species_frame (sklearn_iris w)") simp_all
  next
    case False
    show ?thesis
    proof (cases "files w (strip line)")
      case None
      from load_dataset_not_found [OF Cons False None] that(4,5) show ?thesis
        by (cases "species_frame (sklearn_iris w)") simp_all
    next
      case (Some r)
      show ?thesis
      proof (cases r)
        case (Inl x)
        from load_dataset_csv_error [OF Cons False] Some Inl that(6,7) show ?thesis
          by (cases "species_frame (sklearn_iris w)") simp_all
      next
        case (Inr df)
        from load_dataset_csv [OF Cons False] Some Inr that(8) show ?thesis
          by simp
      qed
    qed
  qed
qed

lemma load_dataset_fields [simp]:
  "files (snd (load_dataset w)) = files w"
  "sklearn_iris (snd (load_dataset w)) = sklearn_iris w"
  "raises (snd (load_dataset w)) = raises w"
  by (cases w rule: load_dataset_cases; simp)+

lemma load_dataset_prefix: "prefix (trace w) (trace (snd (load_dataset w)))"
  by (cases w rule: load_dataset_cases) simp_all

lemma load_dataset_inputs:
  "filter is_input (events_since w (snd (load_dataset w))) = [Input prompt_msg]"
  by (cases w rule: load_dataset_cases) (simp_all add: events_since_def)

lemma load_dataset_path_exists:
  "length (filter is_path_exists (events_since w (snd (load_dataset w)))) \<le> 1"
  by (cases w rule: load_dataset_cases) (simp_all add: events_since_def)

lemma load_dataset_read_csv:
  "length (filter is_read_csv (events_since w (snd (load_dataset w)))) \<le> 1"
  by (cases w rule: load_dataset_cases) (simp_all add: events_since_def)

text \<open>\<^verbatim>\<open>load_iris\<close> is called at most twice, and twice on one path only: the path does not
  exist and \<^verbatim>\<open>load_iris_dataset\<close> raises in line 28, inside the \<^verbatim>\<open>try\<close> block, so that the
  handler calls it again.\<close>

lemma load_dataset_load_iris:
  "length (filter is_load_iris (events_since w (snd (load_dataset w)))) \<le> 2"
  by (cases w rule: load_dataset_cases) (simp_all add: events_since_def)

lemma load_dataset_load_iris_twice:
  "length (filter is_load_iris (events_since w (snd (load_dataset w)))) = 2 \<longleftrightarrow>
     (\<exists>line rest x. stdin w = line # rest \<and> strip line \<noteq> [] \<and> files w (strip line) = None \<and>
        species_frame (sklearn_iris w) = Inl x)"
proof (cases "stdin w")
  case Nil
  then show ?thesis
    by (simp add: load_dataset_eof events_since_def)
next
  case (Cons line rest)
  show ?thesis
  proof (cases "strip line = []")
    case True
    with Cons show ?thesis
      by (cases "species_frame (sklearn_iris w)")
         (simp_all add: load_dataset_default [OF Cons True] events_since_def)
  next
    case False
    show ?thesis
    proof (cases "files w (strip line)")
      case None
      with Cons False show ?thesis
        by (cases "species_frame (sklearn_iris w)")
           (simp_all add: load_dataset_not_found [OF Cons False None] events_since_def)
    next
      case (Some r)
      show ?thesis
      proof (cases r)
        case (Inl e)
        with Some have f: "files w (strip line) = Some (Inl e)" by simp
        with Cons False show ?thesis
          by (cases "species_frame (sklearn_iris w)")
             (simp_all add: load_dataset_csv_error [OF Cons False f] events_since_def)
      next
        case (Inr df)
        with Some have f: "files w (strip line) = Some (Inr df)" by simp
        with Cons False show ?thesis
          by (simp add: load_dataset_csv [OF Cons False f] events_since_def)
      qed
    qed
  qed
qed

lemma load_dataset_never_None: "fst (load_dataset w) \<noteq> Inr None"
  by (cases w rule: load_dataset_cases) simp_all

section \<open>\<^verbatim>\<open>main\<close>\<close>

text \<open>The ways through \<^verbatim>\<open>main\<close>.\<close>

lemma main_load_error:
  "load_dataset (print_str welcome_msg w) = (Inl e, w1) \<Longrightarrow> main w = (Inl e, w1)"
  by (simp add: main_def)

lemma main_empty:
  "load_dataset (print_str welcome_msg w) = (Inr (Some df), w1) \<Longrightarrow> empty df \<Longrightarrow>
   main w = (Inr (), print_str no_dataset_msg w1)"
  by (simp add: main_def)

lemma main_run:
  "load_dataset (print_str welcome_msg w) = (Inr (Some df), w1) \<Longrightarrow> \<not> empty df \<Longrightarrow>
   main w =
     (case basic_analysis (dropna df) (snd (explore_data df w1)) of
        (Inl x, w3) \<Rightarrow> (Inl x, w3)
      | (Inr u, w3) \<Rightarrow>
          (case visualize_data (dropna df) w3 of
             (Inl x, w4) \<Rightarrow> (Inl x, w4)
           | (Inr u, w4) \<Rightarrow> (Inr (), print_str complete_msg w4)))"
  by (simp add: main_def Let_def explore_data_def)

lemma main_describe_error:
  assumes "load_dataset (print_str welcome_msg w) = (Inr (Some df), w1)" and "\<not> empty df"
    and "basic_analysis (dropna df) (snd (explore_data df w1)) = (Inl x, w3)"
  shows "main w = (Inl x, w3)"
  by (simp add: main_run [OF assms(1,2)] assms(3))

lemma main_plot_error:
  assumes "load_dataset (print_str welcome_msg w) = (Inr (Some df), w1)" and "\<not> empty df"
    and "basic_analysis (dropna df) (snd (explore_data df w1)) = (Inr (), w3)"
    and "visualize_data (dropna df) w3 = (Inl x, w4)"
  shows "main w = (Inl x, w4)"
  by (simp add: main_run [OF assms(1,2)] assms(3,4))

lemma main_complete:
  assumes "load_dataset (print_str welcome_msg w) = (Inr (Some df), w1)" and "\<not> empty df"
    and "basic_analysis (dropna df) (snd (explore_data df w1)) = (Inr (), w3)"
    and "visualize_data (dropna df) w3 = (Inr (), w4)"
  shows "main w = (Inr (), print_str complete_msg w4)"
  by (simp add: main_run [OF assms(1,2)] assms(3,4))

lemma explore_data_prefix: "prefix (trace w) (trace (snd (explore_data df w)))"
  by (simp add: explore_data_trace)

text \<open>
  The events of a run of \<^verbatim>\<open>main\<close> are the welcome message and then the events of its
  steps, one after the other, as far as the run goes.
\<close>

lemma main_stop_events:
  assumes "load_dataset (print_str welcome_msg w) = (Inl e, w1)"
  shows "events_since w (snd (main w)) = Print welcome_msg # events_since (print_str welcome_msg w) w1"
proof -
  from load_dataset_prefix [of "print_str welcome_msg w"] assms
  have "prefix (trace (print_str welcome_msg w)) (trace w1)"
    by simp
  from events_since_prefix [OF this]
  have "trace w1 = trace w @ Print welcome_msg # events_since (print_str welcome_msg w) w1"
    by simp
  then have "trace (snd (main w)) =
      trace w @ Print welcome_msg # events_since (print_str welcome_msg w) w1"
    by (simp only: main_load_error [OF assms] snd_conv)
  then show ?thesis
    by (rule events_since_append)
qed

lemma main_empty_events:
  assumes "load_dataset (print_str welcome_msg w) = (Inr (Some df), w1)" and "empty df"
  shows "events_since w (snd (main w)) =
           Print welcome_msg # events_since (print_str welcome_msg w) w1 @ [Print no_dataset_msg]"
proof -
  from load_dataset_prefix [of "print_str welcome_msg w"] assms
  have "prefix (trace (print_str welcome_msg w)) (trace w1)"
    by simp
  from events_since_prefix [OF this]
  have "trace w1 = trace w @ Print welcome_msg # events_since (print_str welcome_msg w) w1"
    by simp
  then have "trace (snd (main w)) =
      trace w @ Print welcome_msg # events_since (print_str welcome_msg w) w1 @ [Print no_dataset_msg]"
    by (simp add: main_empty [OF assms])
  then show ?thesis
    by (rule events_since_append)
qed

lemma main_run_events:
  assumes "load_dataset (print_str welcome_msg w) = (Inr (Some df), w1)" and "\<not> empty df"
    and "w2 = snd (explore_data df w1)"
    and "w3 = snd (basic_analysis (dropna df) w2)"
    and "w4 = snd (visualize_data (dropna df) w3)"
  shows "events_since w (snd (main w)) =
           Print welcome_msg # events_since (print_str welcome_msg w) w1 @ events_since w1 w2 @
           events_since w2 w3 @
           (if fst (basic_analysis (dropna df) w2) = Inr ()
            then events_since w3 w4 @
                 (if fst (visualize_data (dropna df) w3) = Inr () then [Print complete_msg]
                  else [])
            else [])"
proof -
  from load_dataset_prefix [of "print_str welcome_msg w"] assms(1)
  have "prefix (trace (print_str welcome_msg w)) (trace w1)"
    by simp
  from events_since_prefix [OF this]
  have t1: "trace w1 = trace w @ Print welcome_msg # events_since (print_str welcome_msg w) w1"
    by simp
  have t2: "trace w2 = trace w1 @ events_since w1 w2"
    unfolding assms(3) by (rule events_since_prefix) (rule explore_data_prefix)
  have t3: "trace w3 = trace w2 @ events_since w2 w3"
    unfolding assms(4) by (rule events_since_prefix) (rule basic_analysis_prefix)
  have t4: "trace w4 = trace w3 @ events_since w3 w4"
    unfolding assms(5) by (rule events_since_prefix) (rule visualize_data_prefix)
  obtain b where b: "basic_analysis (dropna df) w2 = (b, w3)"
    unfolding assms(4) by (cases "basic_analysis (dropna df) w2") simp
  obtain v where v: "visualize_data (dropna df) w3 = (v, w4)"
    unfolding assms(5) by (cases "visualize_data (dropna df) w3") simp
  have "trace (snd (main w)) =
      trace w3 @ (if b = Inr () then events_since w3 w4 @ (if v = Inr () then [Print complete_msg] else [])
                  else [])"
  proof (cases b)
    case (Inl x)
    with b have "main w = (Inl x, w3)"
      unfolding assms(3) by (intro main_describe_error [OF assms(1,2)]) simp
    with Inl show ?thesis by simp
  next
    case (Inr u)
    with b have b': "basic_analysis (dropna df) (snd (explore_data df w1)) = (Inr (), w3)"
      unfolding assms(3) by simp
    show ?thesis
    proof (cases v)
      case (Inl x)
      with v have "main w = (Inl x, w4)"
        by (intro main_plot_error [OF assms(1,2) b']) simp
      with Inl Inr t4 show ?thesis by simp
    next
      case r: (Inr u')
      with v have "main w = (Inr (), print_str complete_msg w4)"
        by (intro main_complete [OF assms(1,2) b']) simp
      with r Inr t4 show ?thesis by simp
    qed
  qed
  also have "\<dots> = trace w @ (Print welcome_msg # events_since (print_str welcome_msg w) w1 @
       events_since w1 w2 @ events_since w2 w3 @
       (if b = Inr () then events_since w3 w4 @ (if v = Inr () then [Print complete_msg] else [])
        else []))"
    by (simp only: t3 t2 t1 append_assoc append_Cons)
  finally show ?thesis
    using b v by (intro events_since_append) simp
qed

lemma main_run_result:
  assumes "load_dataset (print_str welcome_msg w) = (Inr (Some df), w1)" and "\<not> empty df"
    and "w2 = snd (explore_data df w1)"
    and "w3 = snd (basic_analysis (dropna df) w2)"
  shows "fst (main w) =
           (case fst (basic_analysis (dropna df) w2) of
              Inl x \<Rightarrow> Inl x
            | Inr u \<Rightarrow> (case fst (visualize_data (dropna df) w3) of Inl x \<Rightarrow> Inl x | Inr u \<Rightarrow> Inr ()))"
proof -
  obtain b w3' where b: "basic_analysis (dropna df) (snd (explore_data df w1)) = (b, w3')"
    by (cases "basic_analysis (dropna df) (snd (explore_data df w1))")
  obtain v w4 where v: "visualize_data (dropna df) w3' = (v, w4)"
    by (cases "visualize_data (dropna df) w3'")
  show ?thesis
    unfolding assms(3,4) main_run [OF assms(1,2)]
    by (simp add: b v split: sum.splits)
qed

subsection \<open>The events of each step\<close>

lemma explore_data_events:
  "events_since w (snd (explore_data df w)) =
     [Print (nl @ ''--- Data Overview ---''), PrintHead (head df),
      Print (nl @ ''--- Data Types ---''), PrintDtypes (dtypes df),
      Print (nl @ ''--- Missing Values ---''), PrintNullCounts (isnull_sum df)]"
  by (rule events_since_append) (rule explore_data_trace)

lemma basic_analysis_events:
  "events_since w (snd (basic_analysis df w)) =
     Print summary_msg #
     (if columns df \<noteq> [] \<and> raises w (trace w @ [Print summary_msg]) (PrintDescribe df) = None
      then
        PrintDescribe df #
        (if filter categorical (columns df) \<noteq> [] \<and> filter numeric (columns df) \<noteq> [] then
           Print (group_msg (name (filter categorical (columns df) ! 0))) #
           (if raises w
                 (trace w @ [Print summary_msg, PrintDescribe df,
                             Print (group_msg (name (filter categorical (columns df) ! 0)))])
                 (PrintGroupMean (name (filter categorical (columns df) ! 0)) df) = None
            then [PrintGroupMean (name (filter categorical (columns df) ! 0)) df,
                  Print (nl @ ''Observation:''),
                  Print (observation_msg (name (filter categorical (columns df) ! 0)))]
            else [])
         else [Print no_group_msg])
      else [])"
  by (rule events_since_append) (simp add: basic_analysis_eq split: option.splits)

lemma visualize_data_events:
  "\<exists>k\<le>length (chart_calls df).
     events_since w (snd (visualize_data df w)) =
       (if length (filter numeric (columns df)) < 2 then [Print not_enough_msg]
        else map Plt (take k (chart_calls df))) \<and>
     (2 \<le> length (filter numeric (columns df)) \<and> fst (visualize_data df w) = Inr () \<longrightarrow>
        k = length (chart_calls df))"
proof (cases "length (filter numeric (columns df)) < 2")
  case True
  then have "events_since w (snd (visualize_data df w)) = [Print not_enough_msg]"
    by (intro events_since_append) (simp add: visualize_data_few)
  with True show ?thesis
    by (intro exI [of _ 0]) simp
next
  case False
  then have two: "2 \<le> length (filter numeric (columns df))"
    by simp
  from plt_run [of "chart_calls df" w] obtain k where k: "k \<le> length (chart_calls df)"
    "snd (plt (chart_calls df) w) = w\<lparr>trace := trace w @ map Plt (take k (chart_calls df))\<rparr>"
    "if k = length (chart_calls df) then fst (plt (chart_calls df) w) = Inr ()
     else \<exists>x. raises w (trace w @ map Plt (take k (chart_calls df))) (Plt (chart_calls df ! k)) = Some x \<and>
              fst (plt (chart_calls df) w) = Inl x"
    by blast
  have es: "events_since w (snd (visualize_data df w)) = map Plt (take k (chart_calls df))"
    by (rule events_since_append) (simp add: visualize_data_plt [OF two] k(2))
  from k(3) have "fst (visualize_data df w) = Inr () \<longrightarrow> k = length (chart_calls df)"
    unfolding visualize_data_plt [OF two] by (auto split: if_splits)
  with k(1) es False show ?thesis
    by (intro exI [of _ k]) simp
qed

text \<open>The messages are pairwise different where the properties need it.\<close>

lemma summary_msg_distinct:
  "welcome_msg \<noteq> summary_msg"
  "question_msg \<noteq> summary_msg"
  "file_not_found_msg c \<noteq> summary_msg"
  "error_loading_msg e \<noteq> summary_msg"
  "loaded_msg c \<noteq> summary_msg"
  "iris_loaded_msg \<noteq> summary_msg"
  "no_dataset_msg \<noteq> summary_msg"
  "complete_msg \<noteq> summary_msg"
  "not_enough_msg \<noteq> summary_msg"
  "nl @ ''--- Data Overview ---'' \<noteq> summary_msg"
  "nl @ ''--- Data Types ---'' \<noteq> summary_msg"
  "nl @ ''--- Missing Values ---'' \<noteq> summary_msg"
  "group_msg g \<noteq> summary_msg"
  "nl @ ''Observation:'' \<noteq> summary_msg"
  "observation_msg g \<noteq> summary_msg"
  "no_group_msg \<noteq> summary_msg"
  by (simp_all add: not_enough_msg_def welcome_msg_def question_msg_def file_not_found_msg_def
        error_loading_msg_def loaded_msg_def iris_loaded_msg_def no_dataset_msg_def
        complete_msg_def summary_msg_def group_msg_def observation_msg_def no_group_msg_def
        nl_def cross_def tick_def arrow_def)

lemma not_enough_msg_distinct:
  "welcome_msg \<noteq> not_enough_msg"
  "question_msg \<noteq> not_enough_msg"
  "file_not_found_msg c \<noteq> not_enough_msg"
  "error_loading_msg e \<noteq> not_enough_msg"
  "loaded_msg c \<noteq> not_enough_msg"
  "iris_loaded_msg \<noteq> not_enough_msg"
  "no_dataset_msg \<noteq> not_enough_msg"
  "complete_msg \<noteq> not_enough_msg"
  "summary_msg \<noteq> not_enough_msg"
  "nl @ ''--- Data Overview ---'' \<noteq> not_enough_msg"
  "nl @ ''--- Data Types ---'' \<noteq> not_enough_msg"
  "nl @ ''--- Missing Values ---'' \<noteq> not_enough_msg"
  "group_msg g \<noteq> not_enough_msg"
  "nl @ ''Observation:'' \<noteq> not_enough_msg"
  "observation_msg g \<noteq> not_enough_msg"
  "no_group_msg \<noteq> not_enough_msg"
  by (simp_all add: not_enough_msg_def welcome_msg_def question_msg_def file_not_found_msg_def
        error_loading_msg_def loaded_msg_def iris_loaded_msg_def no_dataset_msg_def
        complete_msg_def summary_msg_def group_msg_def observation_msg_def no_group_msg_def
        nl_def cross_def tick_def arrow_def)

lemma no_dataset_msg_distinct:
  "welcome_msg \<noteq> no_dataset_msg"
  "question_msg \<noteq> no_dataset_msg"
  "file_not_found_msg c \<noteq> no_dataset_msg"
  "error_loading_msg e \<noteq> no_dataset_msg"
  "loaded_msg c \<noteq> no_dataset_msg"
  "iris_loaded_msg \<noteq> no_dataset_msg"
  "not_enough_msg \<noteq> no_dataset_msg"
  "complete_msg \<noteq> no_dataset_msg"
  "summary_msg \<noteq> no_dataset_msg"
  "nl @ ''--- Data Overview ---'' \<noteq> no_dataset_msg"
  "nl @ ''--- Data Types ---'' \<noteq> no_dataset_msg"
  "nl @ ''--- Missing Values ---'' \<noteq> no_dataset_msg"
  "group_msg g \<noteq> no_dataset_msg"
  "nl @ ''Observation:'' \<noteq> no_dataset_msg"
  "observation_msg g \<noteq> no_dataset_msg"
  "no_group_msg \<noteq> no_dataset_msg"
  by (simp_all add: not_enough_msg_def welcome_msg_def question_msg_def file_not_found_msg_def
        error_loading_msg_def loaded_msg_def iris_loaded_msg_def no_dataset_msg_def
        complete_msg_def summary_msg_def group_msg_def observation_msg_def no_group_msg_def
        nl_def cross_def tick_def arrow_def)

lemma complete_msg_distinct:
  "welcome_msg \<noteq> complete_msg"
  "question_msg \<noteq> complete_msg"
  "file_not_found_msg c \<noteq> complete_msg"
  "error_loading_msg e \<noteq> complete_msg"
  "loaded_msg c \<noteq> complete_msg"
  "iris_loaded_msg \<noteq> complete_msg"
  "not_enough_msg \<noteq> complete_msg"
  "no_dataset_msg \<noteq> complete_msg"
  "summary_msg \<noteq> complete_msg"
  "nl @ ''--- Data Overview ---'' \<noteq> complete_msg"
  "nl @ ''--- Data Types ---'' \<noteq> complete_msg"
  "nl @ ''--- Missing Values ---'' \<noteq> complete_msg"
  "group_msg g \<noteq> complete_msg"
  "nl @ ''Observation:'' \<noteq> complete_msg"
  "observation_msg g \<noteq> complete_msg"
  "no_group_msg \<noteq> complete_msg"
  by (simp_all add: not_enough_msg_def welcome_msg_def question_msg_def file_not_found_msg_def
        error_loading_msg_def loaded_msg_def iris_loaded_msg_def no_dataset_msg_def
        complete_msg_def summary_msg_def group_msg_def observation_msg_def no_group_msg_def
        nl_def cross_def tick_def arrow_def)

subsection \<open>Steps\<close>

lemma steps_append: "steps (xs @ ys) = steps xs @ steps ys"
  by (simp add: steps_def map_filter_def)

lemma steps_Cons: "steps (e # es) = (case step_start e of None \<Rightarrow> steps es | Some s \<Rightarrow> s # steps es)"
  by (simp add: steps_def map_filter_def split: option.splits)

lemma steps_Nil: "steps [] = []"
  by (simp add: steps_def map_filter_def)

lemma steps_none: "\<forall>e\<in>set es. step_start e = None \<Longrightarrow> steps es = []"
  by (induction es) (simp_all add: steps_Nil steps_Cons)

lemma steps_load_dataset: "steps (events_since w (snd (load_dataset w))) = [LoadStep]"
  by (cases w rule: load_dataset_cases)
    (simp_all add: events_since_def steps_Cons steps_Nil not_enough_msg_distinct
       summary_msg_distinct)

lemma steps_explore_data: "steps (events_since w (snd (explore_data df w))) = [CleanStep]"
  by (simp add: explore_data_events steps_Cons steps_Nil not_enough_msg_distinct
        summary_msg_distinct)

lemma steps_basic_analysis: "steps (events_since w (snd (basic_analysis df w))) = [DescribeStep]"
  by (simp add: basic_analysis_events steps_Cons steps_Nil not_enough_msg_distinct
        summary_msg_distinct)

lemma chart_calls_Cons:
  "\<exists>cs. chart_calls df = Figure 8 4 # cs \<and> (\<forall>c\<in>set cs. step_start (Plt c) = None)"
  by (auto simp: chart_calls_def line_chart_def bar_chart_def histogram_def scatter_plot_def)

lemma steps_chart_calls:
  "steps (map Plt (take k (chart_calls df))) = (if k = 0 then [] else [PlotStep])"
proof (cases k)
  case 0
  then show ?thesis by (simp add: steps_Nil)
next
  case (Suc j)
  from chart_calls_Cons [of df] obtain cs where
    cs: "chart_calls df = Figure 8 4 # cs" "\<forall>c\<in>set cs. step_start (Plt c) = None"
    by blast
  from cs(2) have "\<forall>e\<in>set (map Plt (take j cs)). step_start e = None"
    by (auto dest: in_set_takeD)
  from steps_none [OF this] Suc cs(1) show ?thesis
    by (simp add: steps_Cons)
qed

lemma steps_visualize_data:
  "steps (events_since w (snd (visualize_data df w))) =
     (if events_since w (snd (visualize_data df w)) = [] then [] else [PlotStep])"
proof -
  from visualize_data_events [of df w] obtain k where k: "k \<le> length (chart_calls df)"
    "events_since w (snd (visualize_data df w)) =
       (if length (filter numeric (columns df)) < 2 then [Print not_enough_msg]
        else map Plt (take k (chart_calls df)))"
    by blast
  from chart_calls_Cons [of df] have ne: "chart_calls df \<noteq> []"
    by auto
  show ?thesis
  proof (cases "length (filter numeric (columns df)) < 2")
    case True
    with k(2) show ?thesis
      by (simp add: steps_Cons steps_Nil not_enough_msg_distinct [symmetric])
  next
    case False
    with k(2) ne show ?thesis
      by (simp add: steps_chart_calls)
  qed
qed

subsection \<open>Where the calls of \<open>load_dataset\<close> and the last messages can occur\<close>

lemma visualize_data_event:
  assumes "e \<in> set (events_since w (snd (visualize_data df w)))"
  shows "e = Print not_enough_msg \<or> (\<exists>c\<in>set (chart_calls df). e = Plt c)"
proof -
  from visualize_data_events [of df w] obtain k where
    "events_since w (snd (visualize_data df w)) =
       (if length (filter numeric (columns df)) < 2 then [Print not_enough_msg]
        else map Plt (take k (chart_calls df)))"
    by blast
  with assms show ?thesis
    by (auto split: if_splits dest: in_set_takeD)
qed

lemma filter_none: "(\<And>e. e \<in> set es \<Longrightarrow> \<not> P e) \<Longrightarrow> filter P es = []"
  by (induction es) simp_all

lemma no_calls_explore_data:
  "filter is_input (events_since w (snd (explore_data df w))) = []"
  "filter is_path_exists (events_since w (snd (explore_data df w))) = []"
  "filter is_read_csv (events_since w (snd (explore_data df w))) = []"
  "filter is_load_iris (events_since w (snd (explore_data df w))) = []"
  by (simp_all add: explore_data_events)

lemma no_calls_basic_analysis:
  "filter is_input (events_since w (snd (basic_analysis df w))) = []"
  "filter is_path_exists (events_since w (snd (basic_analysis df w))) = []"
  "filter is_read_csv (events_since w (snd (basic_analysis df w))) = []"
  "filter is_load_iris (events_since w (snd (basic_analysis df w))) = []"
  by (simp_all add: basic_analysis_events)

lemma no_calls_visualize_data:
  "filter is_input (events_since w (snd (visualize_data df w))) = []"
  "filter is_path_exists (events_since w (snd (visualize_data df w))) = []"
  "filter is_read_csv (events_since w (snd (visualize_data df w))) = []"
  "filter is_load_iris (events_since w (snd (visualize_data df w))) = []"
  by (rule filter_none, drule visualize_data_event, auto)+

lemma no_exit_load_dataset:
  "Print no_dataset_msg \<notin> set (events_since w (snd (load_dataset w)))"
  "Print complete_msg \<notin> set (events_since w (snd (load_dataset w)))"
  by (cases w rule: load_dataset_cases;
      simp add: events_since_def no_dataset_msg_distinct [symmetric]
        complete_msg_distinct [symmetric])+

lemma no_exit_explore_data:
  "Print no_dataset_msg \<notin> set (events_since w (snd (explore_data df w)))"
  "Print complete_msg \<notin> set (events_since w (snd (explore_data df w)))"
  by (simp_all add: explore_data_events no_dataset_msg_distinct [symmetric]
        complete_msg_distinct [symmetric])

lemma no_exit_basic_analysis:
  "Print no_dataset_msg \<notin> set (events_since w (snd (basic_analysis df w)))"
  "Print complete_msg \<notin> set (events_since w (snd (basic_analysis df w)))"
  by (simp_all add: basic_analysis_events no_dataset_msg_distinct [symmetric]
        complete_msg_distinct [symmetric])

lemma no_exit_visualize_data:
  "Print no_dataset_msg \<notin> set (events_since w (snd (visualize_data df w)))"
  "Print complete_msg \<notin> set (events_since w (snd (visualize_data df w)))"
  by (auto dest!: visualize_data_event simp: no_dataset_msg_distinct [symmetric]
        complete_msg_distinct [symmetric])

subsection \<open>The runs of \<^verbatim>\<open>main\<close>\<close>

lemma main_cases [case_names load_error empty run]:
  obtains e w1 where "load_dataset (print_str welcome_msg w) = (Inl e, w1)"
  | df w1 where "load_dataset (print_str welcome_msg w) = (Inr (Some df), w1)" "empty df"
  | df w1 where "load_dataset (print_str welcome_msg w) = (Inr (Some df), w1)" "\<not> empty df"
proof -
  obtain r w1 where l: "load_dataset (print_str welcome_msg w) = (r, w1)"
    by (cases "load_dataset (print_str welcome_msg w)")
  show ?thesis
  proof (cases r)
    case (Inl e)
    with l that(1) show ?thesis by blast
  next
    case (Inr opt)
    with l load_dataset_never_None [of "print_str welcome_msg w"] obtain df where "opt = Some df"
      by (cases opt) simp_all
    with l Inr that(2,3) show ?thesis
      by (cases "empty df") blast+
  qed
qed

lemma visualize_data_returned:
  assumes "fst (visualize_data df w) = Inr ()"
  shows "events_since w (snd (visualize_data df w)) \<noteq> []"
proof -
  from visualize_data_events [of df w] obtain k where k:
    "events_since w (snd (visualize_data df w)) =
       (if length (filter numeric (columns df)) < 2 then [Print not_enough_msg]
        else map Plt (take k (chart_calls df)))"
    "2 \<le> length (filter numeric (columns df)) \<and> fst (visualize_data df w) = Inr () \<longrightarrow>
        k = length (chart_calls df)"
    by blast
  from chart_calls_Cons [of df] have "chart_calls df \<noteq> []"
    by auto
  with k assms show ?thesis
    by (cases "length (filter numeric (columns df)) < 2") simp_all
qed

lemma main_exit_iff:
  "Print no_dataset_msg \<in> set (events_since w (snd (main w))) \<longleftrightarrow>
     (\<exists>df. fst (load_dataset (print_str welcome_msg w)) = Inr (Some df) \<and> empty df)"
proof (cases w rule: main_cases)
  case (load_error e w1)
  from no_exit_load_dataset(1) [of "print_str welcome_msg w"] load_error
  have "Print no_dataset_msg \<notin> set (events_since (print_str welcome_msg w) w1)"
    by simp
  with load_error show ?thesis
    by (simp add: main_stop_events [OF load_error] no_dataset_msg_distinct [symmetric])
next
  case (empty df w1)
  then show ?thesis
    by (simp add: main_empty_events [OF empty])
next
  case (run df w1)
  from no_exit_load_dataset(1) [of "print_str welcome_msg w"] run(1)
  have "Print no_dataset_msg \<notin> set (events_since (print_str welcome_msg w) w1)"
    by simp
  with run show ?thesis
    by (simp add: main_run_events [OF run refl refl refl] no_exit_explore_data
          no_exit_basic_analysis no_exit_visualize_data no_dataset_msg_distinct [symmetric]
          complete_msg_distinct)
qed

lemma main_complete_iff:
  "Print complete_msg \<in> set (events_since w (snd (main w))) \<longleftrightarrow>
     (\<exists>df w1. load_dataset (print_str welcome_msg w) = (Inr (Some df), w1) \<and> \<not> empty df \<and>
        fst (basic_analysis (dropna df) (snd (explore_data df w1))) = Inr () \<and>
        fst (visualize_data (dropna df)
               (snd (basic_analysis (dropna df) (snd (explore_data df w1))))) = Inr ())"
proof (cases w rule: main_cases)
  case (load_error e w1)
  from no_exit_load_dataset(2) [of "print_str welcome_msg w"] load_error
  have "Print complete_msg \<notin> set (events_since (print_str welcome_msg w) w1)"
    by simp
  with load_error show ?thesis
    by (simp add: main_stop_events [OF load_error] complete_msg_distinct [symmetric])
next
  case (empty df w1)
  from no_exit_load_dataset(2) [of "print_str welcome_msg w"] empty(1)
  have "Print complete_msg \<notin> set (events_since (print_str welcome_msg w) w1)"
    by simp
  with empty show ?thesis
    by (simp add: main_empty_events [OF empty] complete_msg_distinct [symmetric]
          no_dataset_msg_distinct)
next
  case (run df w1)
  from no_exit_load_dataset(2) [of "print_str welcome_msg w"] run(1)
  have "Print complete_msg \<notin> set (events_since (print_str welcome_msg w) w1)"
    by simp
  with run show ?thesis
    by (simp add: main_run_events [OF run refl refl refl] no_exit_explore_data
          no_exit_basic_analysis no_exit_visualize_data complete_msg_distinct [symmetric])
qed

lemma main_complete_run:
  assumes "Print complete_msg \<in> set (events_since w (snd (main w)))"
  shows "fst (main w) = Inr ()"
    and "last (events_since w (snd (main w))) = Print complete_msg"
    and "steps (events_since w (snd (main w))) = [LoadStep, CleanStep, DescribeStep, PlotStep]"
proof -
  from assms main_complete_iff [of w] obtain df w1 where
    l: "load_dataset (print_str welcome_msg w) = (Inr (Some df), w1)" and ne: "\<not> empty df"
    and b: "fst (basic_analysis (dropna df) (snd (explore_data df w1))) = Inr ()"
    and v: "fst (visualize_data (dropna df)
               (snd (basic_analysis (dropna df) (snd (explore_data df w1))))) = Inr ()"
    by blast
  from main_run_result [OF l ne refl refl] b v show "fst (main w) = Inr ()"
    by simp
  note es = main_run_events [OF l ne refl refl refl]
  from b v show "last (events_since w (snd (main w))) = Print complete_msg"
    unfolding es by simp
  from steps_load_dataset [of "print_str welcome_msg w"] l
  have sl: "steps (events_since (print_str welcome_msg w) w1) = [LoadStep]"
    by simp
  from b v show "steps (events_since w (snd (main w))) = [LoadStep, CleanStep, DescribeStep, PlotStep]"
    unfolding es
    by (simp add: steps_Cons steps_append steps_Nil sl steps_explore_data steps_basic_analysis
          steps_visualize_data visualize_data_returned summary_msg_distinct
          not_enough_msg_distinct)
qed

lemma main_returns_iff:
  "fst (main w) = Inr () \<longleftrightarrow>
     Print no_dataset_msg \<in> set (events_since w (snd (main w))) \<or>
     Print complete_msg \<in> set (events_since w (snd (main w)))"
proof (cases w rule: main_cases)
  case (load_error e w1)
  then show ?thesis
    unfolding main_exit_iff main_complete_iff by (simp add: main_load_error [OF load_error])
next
  case (empty df w1)
  then show ?thesis
    unfolding main_exit_iff main_complete_iff by (simp add: main_empty [OF empty])
next
  case (run df w1)
  then show ?thesis
    unfolding main_exit_iff main_complete_iff
    by (simp add: main_run_result [OF run refl refl] split: sum.splits)
qed

lemma main_raises:
  assumes "fst (main w) = Inl x"
  shows "fst (load_dataset (print_str welcome_msg w)) = Inl x \<or>
     (\<exists>df w1. load_dataset (print_str welcome_msg w) = (Inr (Some df), w1) \<and> \<not> empty df \<and>
        (fst (basic_analysis (dropna df) (snd (explore_data df w1))) = Inl x \<or>
         fst (basic_analysis (dropna df) (snd (explore_data df w1))) = Inr () \<and>
         fst (visualize_data (dropna df)
                (snd (basic_analysis (dropna df) (snd (explore_data df w1))))) = Inl x))"
proof (cases w rule: main_cases)
  case (load_error e w1)
  with assms show ?thesis
    by (simp add: main_load_error [OF load_error])
next
  case (empty df w1)
  with assms show ?thesis
    by (simp add: main_empty [OF empty])
next
  case (run df w1)
  with assms show ?thesis
    by (simp add: main_run_result [OF run refl refl] split: sum.splits)
qed

subsection \<open>Sample runs\<close>

lemma load_sample_csv:
  assumes "strip p = p" and "p \<noteq> []" and "sample_files p = Some (Inr df)"
  shows "load_dataset (print_str welcome_msg (sample_world [p])) =
     (Inr (Some df),
      (sample_world [])\<lparr>trace := [Print welcome_msg, Print question_msg, Input prompt_msg,
          PathExists p, ReadCsv p, Print (loaded_msg p)]\<rparr>)"
proof -
  have "load_dataset (print_str welcome_msg (sample_world [p])) =
     (Inr (Some df),
      (print_str welcome_msg (sample_world [p]))\<lparr>stdin := [],
        trace := trace (print_str welcome_msg (sample_world [p])) @
          [Print question_msg, Input prompt_msg,
           PathExists (strip p), ReadCsv (strip p),
           Print (loaded_msg (strip p))]\<rparr>)"
    by (rule load_dataset_csv) (simp_all add: assms)
  then show ?thesis
    by (simp add: assms(1) sample_world_def print_str_def emit_def)
qed

lemmas load_header = load_sample_csv [OF strip_header _ sample_files_lookup(4), simplified]
lemmas load_people = load_sample_csv [OF strip_people _ sample_files_lookup(1), simplified]
lemmas load_rates = load_sample_csv [OF strip_rates _ sample_files_lookup(2), simplified]

lemma empty_samples: "empty header_only" "\<not> empty people" "\<not> empty rates"
  by (simp_all add: empty_def header_only_def people_def rates_def)

lemma dropna_rates: "dropna rates = rates"
  by (simp add: dropna_def rates_def all_axis1_def notna_def)

lemma dropna_people:
  "dropna people =
     \<lparr>index = [0, 3],
      columns =
        [\<lparr>name = ''height'', dtype = Number, cells = [FloatV 1.5, FloatV 1.6]\<rparr>,
         \<lparr>name = ''weight'', dtype = Number, cells = [IntV 60, IntV 65]\<rparr>,
         \<lparr>name = ''city'', dtype = Object, cells = [StrV ''Oslo'', StrV ''Lima'']\<rparr>]\<rparr>"
  by (simp add: dropna_def people_def all_axis1_def notna_def)

lemma rates_columns:
  "filter numeric (columns rates) =
     [\<lparr>name = ''x'', dtype = Number, cells = [IntV 1, IntV 2]\<rparr>,
      \<lparr>name = ''rate'', dtype = Number, cells = [FloatV 1, PosInf]\<rparr>]"
  "filter categorical (columns rates) = []"
  "columns rates \<noteq> []"
  by (simp_all add: rates_def numeric_def categorical_def)

lemma main_rates:
  "fst (main (sample_world [''rates.csv''])) =
     Inl (ValueError ''supplied range of [1.0, inf] is not finite'')"
  by (simp add: main_run_result [OF load_rates empty_samples(3) refl refl] dropna_rates
        basic_analysis_eq visualize_data_plt chart_calls_def line_chart_def bar_chart_def
        histogram_def scatter_plot_def lib_call_eq sample_raises_def rates_columns)

lemma main_people:
  "fst (basic_analysis (dropna people)
          (snd (explore_data people
             ((sample_world [])\<lparr>trace := [Print welcome_msg, Print question_msg, Input prompt_msg,
                  PathExists ''people.csv'', ReadCsv ''people.csv'',
                  Print (loaded_msg ''people.csv'')]\<rparr>)))) = Inr ()"
  "fst (visualize_data (dropna people)
          (snd (basic_analysis (dropna people)
             (snd (explore_data people
                ((sample_world [])\<lparr>trace := [Print welcome_msg, Print question_msg,
                     Input prompt_msg, PathExists ''people.csv'', ReadCsv ''people.csv'',
                     Print (loaded_msg ''people.csv'')]\<rparr>)))))) = Inr ()"
  by (simp_all add: dropna_people
        basic_analysis_eq visualize_data_plt chart_calls_def line_chart_def bar_chart_def
        histogram_def scatter_plot_def lib_call_eq sample_raises_def sample_world_def
        numeric_def categorical_def)

text \<open>
  C10, as the code has it. \<^verbatim>\<open>load_dataset\<close> never returns \<^verbatim>\<open>None\<close> (it returns a dataframe
  or raises), so of the guard \<^verbatim>\<open>df is None or df.empty\<close> only the second half can hold.
  \<^verbatim>\<open>main\<close> prints \<^verbatim>\<open>No dataset available\<close> and returns exactly when \<^verbatim>\<open>load_dataset\<close> has
  returned an empty dataframe. It prints \<^verbatim>\<open>Analysis complete\<close> exactly when \<^verbatim>\<open>load_dataset\<close>
  has returned a dataframe that is not empty and both \<^verbatim>\<open>basic_analysis\<close> and
  \<^verbatim>\<open>visualize_data\<close>, called on the cleaned dataframe, have returned; the message is then
  the last output of a run that went through all four steps, once each. These are the
  two ways in which \<^verbatim>\<open>main\<close> returns: in every other run it is left by the exception that
  \<^verbatim>\<open>load_dataset\<close>, \<^verbatim>\<open>basic_analysis\<close> or \<^verbatim>\<open>visualize_data\<close> has raised, and prints neither
  message.
\<close>

theorem main_early_exit:
  "fst (load_dataset w) \<noteq> Inr None \<and>
   (\<forall>df w1. load_dataset (print_str welcome_msg w) = (Inr (Some df), w1) \<and> empty df \<longrightarrow>
      main w = (Inr (), print_str no_dataset_msg w1)) \<and>
   (Print no_dataset_msg \<in> set (events_since w (snd (main w))) \<longleftrightarrow>
      (\<exists>df. fst (load_dataset (print_str welcome_msg w)) = Inr (Some df) \<and> empty df)) \<and>
   (Print complete_msg \<in> set (events_since w (snd (main w))) \<longleftrightarrow>
      (\<exists>df w1. load_dataset (print_str welcome_msg w) = (Inr (Some df), w1) \<and> \<not> empty df \<and>
         fst (basic_analysis (dropna df) (snd (explore_data df w1))) = Inr () \<and>
         fst (visualize_data (dropna df)
                (snd (basic_analysis (dropna df) (snd (explore_data df w1))))) = Inr ())) \<and>
   (Print complete_msg \<in> set (events_since w (snd (main w))) \<longrightarrow>
      last (events_since w (snd (main w))) = Print complete_msg \<and>
      steps (events_since w (snd (main w))) = [LoadStep, CleanStep, DescribeStep, PlotStep]) \<and>
   (fst (main w) = Inr () \<longleftrightarrow>
      Print no_dataset_msg \<in> set (events_since w (snd (main w))) \<or>
      Print complete_msg \<in> set (events_since w (snd (main w)))) \<and>
   (\<forall>x. fst (main w) = Inl x \<longrightarrow>
      fst (load_dataset (print_str welcome_msg w)) = Inl x \<or>
      (\<exists>df w1. load_dataset (print_str welcome_msg w) = (Inr (Some df), w1) \<and> \<not> empty df \<and>
         (fst (basic_analysis (dropna df) (snd (explore_data df w1))) = Inl x \<or>
          fst (basic_analysis (dropna df) (snd (explore_data df w1))) = Inr () \<and>
          fst (visualize_data (dropna df)
                 (snd (basic_analysis (dropna df) (snd (explore_data df w1))))) = Inl x)))"
  apply (intro conjI allI impI)
  subgoal by (rule load_dataset_never_None)
  subgoal for df w1 using main_empty [of w df w1] by blast
  subgoal by (rule main_exit_iff)
  subgoal by (rule main_complete_iff)
  subgoal by (rule main_complete_run)
  subgoal by (rule main_complete_run)
  subgoal by (rule main_returns_iff)
  subgoal by (rule main_raises)
  done

theorem main_early_exit_witness:
  "empty header_only \<and>
   main (sample_world [''header.csv'']) =
     (Inr (),
      (sample_world [])\<lparr>trace := [Print welcome_msg, Print question_msg, Input prompt_msg,
          PathExists ''header.csv'', ReadCsv ''header.csv'', Print (loaded_msg ''header.csv''),
          Print no_dataset_msg]\<rparr>) \<and>
   \<not> empty people \<and>
   Print complete_msg \<in> set (events_since (sample_world [''people.csv''])
                               (snd (main (sample_world [''people.csv''])))) \<and>
   fst (main (sample_world [''people.csv''])) = Inr () \<and>
   steps (events_since (sample_world [''people.csv''])
            (snd (main (sample_world [''people.csv''])))) =
     [LoadStep, CleanStep, DescribeStep, PlotStep]"
proof -
  note h = main_early_exit [of "sample_world [''header.csv'']"]
  note p = main_early_exit [of "sample_world [''people.csv'']"]
  from h load_header empty_samples(1)
  have "main (sample_world [''header.csv'']) =
     (Inr (), print_str no_dataset_msg
      ((sample_world [])\<lparr>trace := [Print welcome_msg, Print question_msg, Input prompt_msg,
          PathExists ''header.csv'', ReadCsv ''header.csv'', Print (loaded_msg ''header.csv'')]\<rparr>))"
    by blast
  then have a: "main (sample_world [''header.csv'']) =
     (Inr (),
      (sample_world [])\<lparr>trace := [Print welcome_msg, Print question_msg, Input prompt_msg,
          PathExists ''header.csv'', ReadCsv ''header.csv'', Print (loaded_msg ''header.csv''),
          Print no_dataset_msg]\<rparr>)"
    by (simp add: print_str_def emit_def)
  from p load_people empty_samples(2) main_people
  have b: "Print complete_msg \<in> set (events_since (sample_world [''people.csv''])
                               (snd (main (sample_world [''people.csv'']))))"
    by blast
  with p have c: "fst (main (sample_world [''people.csv''])) = Inr ()"
    and d: "steps (events_since (sample_world [''people.csv''])
            (snd (main (sample_world [''people.csv''])))) =
     [LoadStep, CleanStep, DescribeStep, PlotStep]"
    by blast+
  from a b c d empty_samples show ?thesis
    by blast
qed

text \<open>
  C10 as stated fails: the file \<^verbatim>\<open>rates.csv\<close> gives a dataframe that is not empty, and \<^verbatim>\<open>main\<close>
  neither exits early nor runs to completion: \<^verbatim>\<open>plt.hist\<close> raises \<^verbatim>\<open>ValueError\<close> on the
  infinity in the second numeric column, and the exception leaves \<^verbatim>\<open>visualize_data\<close> and
  \<^verbatim>\<open>main\<close>. With standard input at end of file \<^verbatim>\<open>load_dataset\<close> returns no dataframe, and
  \<^verbatim>\<open>main\<close> ends in the \<^verbatim>\<open>EOFError\<close>.
\<close>

theorem main_completion_counterexample:
  "fst (load_dataset (print_str welcome_msg (sample_world [''rates.csv'']))) = Inr (Some rates) \<and>
   \<not> empty rates \<and>
   fst (main (sample_world [''rates.csv''])) =
     Inl (ValueError ''supplied range of [1.0, inf] is not finite'') \<and>
   Print complete_msg \<notin> set (events_since (sample_world [''rates.csv''])
                               (snd (main (sample_world [''rates.csv''])))) \<and>
   Print no_dataset_msg \<notin> set (events_since (sample_world [''rates.csv''])
                                 (snd (main (sample_world [''rates.csv''])))) \<and>
   fst (load_dataset (sample_world [])) = Inl EOFError \<and>
   fst (main (sample_world [])) = Inl EOFError"
proof -
  have a: "fst (main (sample_world [''rates.csv''])) \<noteq> Inr ()"
    by (simp add: main_rates)
  have e: "load_dataset (print_str welcome_msg (sample_world [])) =
      (Inl EOFError,
       (print_str welcome_msg (sample_world []))\<lparr>trace :=
          trace (print_str welcome_msg (sample_world [])) @
          [Print question_msg, Input prompt_msg]\<rparr>)"
    by (rule load_dataset_eof) simp
  from a main_returns_iff [of "sample_world [''rates.csv'']"] show ?thesis
    by (simp add: load_rates empty_samples main_rates load_dataset_eof main_load_error [OF e])
qed

subsection \<open>Steps and data flow of a run\<close>

lemma load_dataset_no_frames:
  "PrintHead d \<notin> set (events_since w (snd (load_dataset w)))"
  "PrintDescribe d \<notin> set (events_since w (snd (load_dataset w)))"
  "Plt c \<notin> set (events_since w (snd (load_dataset w)))"
  by (cases w rule: load_dataset_cases; simp add: events_since_def)+

lemma main_steps:
  "(\<forall>e w1. load_dataset (print_str welcome_msg w) = (Inl e, w1) \<longrightarrow>
      steps (events_since w (snd (main w))) = [LoadStep]) \<and>
   (\<forall>df w1. load_dataset (print_str welcome_msg w) = (Inr (Some df), w1) \<and> empty df \<longrightarrow>
      steps (events_since w (snd (main w))) = [LoadStep]) \<and>
   (\<forall>df w1. load_dataset (print_str welcome_msg w) = (Inr (Some df), w1) \<and> \<not> empty df \<longrightarrow>
      steps (events_since w (snd (main w))) =
        LoadStep # CleanStep # DescribeStep #
        (if fst (basic_analysis (dropna df) (snd (explore_data df w1))) = Inr () \<and>
            events_since (snd (basic_analysis (dropna df) (snd (explore_data df w1))))
              (snd (visualize_data (dropna df)
                      (snd (basic_analysis (dropna df) (snd (explore_data df w1)))))) \<noteq> []
         then [PlotStep] else []))"
proof (intro conjI allI impI)
  fix e w1
  assume l: "load_dataset (print_str welcome_msg w) = (Inl e, w1)"
  from steps_load_dataset [of "print_str welcome_msg w"] l
  have sl: "steps (events_since (print_str welcome_msg w) w1) = [LoadStep]"
    by simp
  show "steps (events_since w (snd (main w))) = [LoadStep]"
    by (simp add: main_stop_events [OF l] steps_Cons sl summary_msg_distinct
          not_enough_msg_distinct)
next
  fix df w1
  assume "load_dataset (print_str welcome_msg w) = (Inr (Some df), w1) \<and> empty df"
  then have l: "load_dataset (print_str welcome_msg w) = (Inr (Some df), w1)" and e: "empty df"
    by simp_all
  from steps_load_dataset [of "print_str welcome_msg w"] l
  have sl: "steps (events_since (print_str welcome_msg w) w1) = [LoadStep]"
    by simp
  show "steps (events_since w (snd (main w))) = [LoadStep]"
    by (simp add: main_empty_events [OF l e] steps_Cons steps_append steps_Nil sl
          summary_msg_distinct not_enough_msg_distinct)
next
  fix df w1
  assume "load_dataset (print_str welcome_msg w) = (Inr (Some df), w1) \<and> \<not> empty df"
  then have l: "load_dataset (print_str welcome_msg w) = (Inr (Some df), w1)" and e: "\<not> empty df"
    by simp_all
  from steps_load_dataset [of "print_str welcome_msg w"] l
  have sl: "steps (events_since (print_str welcome_msg w) w1) = [LoadStep]"
    by simp
  show "steps (events_since w (snd (main w))) =
        LoadStep # CleanStep # DescribeStep #
        (if fst (basic_analysis (dropna df) (snd (explore_data df w1))) = Inr () \<and>
            events_since (snd (basic_analysis (dropna df) (snd (explore_data df w1))))
              (snd (visualize_data (dropna df)
                      (snd (basic_analysis (dropna df) (snd (explore_data df w1)))))) \<noteq> []
         then [PlotStep] else [])"
    by (simp add: main_run_events [OF l e refl refl refl] steps_Cons steps_append steps_Nil sl
          steps_explore_data steps_basic_analysis steps_visualize_data
          summary_msg_distinct not_enough_msg_distinct)
qed

lemma main_steps_prefix:
  "prefix (steps (events_since w (snd (main w)))) [LoadStep, CleanStep, DescribeStep, PlotStep]"
  "LoadStep \<in> set (steps (events_since w (snd (main w))))"
  using main_steps [of w] by (cases w rule: main_cases; simp)+

lemma main_data_flow:
  assumes "load_dataset (print_str welcome_msg w) = (r, w1)"
  shows "PrintHead d \<in> set (events_since w (snd (main w))) \<Longrightarrow>
           \<exists>df. r = Inr (Some df) \<and> \<not> empty df \<and> d = head df"
    and "PrintDescribe d \<in> set (events_since w (snd (main w))) \<Longrightarrow>
           \<exists>df. r = Inr (Some df) \<and> \<not> empty df \<and> d = fst (explore_data df w1)"
    and "Plt (Scatterplot x y h d p) \<in> set (events_since w (snd (main w))) \<Longrightarrow>
           \<exists>df. r = Inr (Some df) \<and> \<not> empty df \<and> d = fst (explore_data df w1)"
proof -
  have ld: "PrintHead d \<notin> set (events_since (print_str welcome_msg w) w1)"
    "PrintDescribe d \<notin> set (events_since (print_str welcome_msg w) w1)"
    "Plt (Scatterplot x y h d p) \<notin> set (events_since (print_str welcome_msg w) w1)"
    using load_dataset_no_frames [of _ "print_str welcome_msg w"] assms by simp_all
  have vd: "PrintHead d \<notin> set (events_since w3 (snd (visualize_data df1 w3)))"
    "PrintDescribe d \<notin> set (events_since w3 (snd (visualize_data df1 w3)))"
    "Plt (Scatterplot x y h d p) \<in> set (events_since w3 (snd (visualize_data df1 w3))) \<Longrightarrow> d = df1"
    for w3 df1
    by (auto dest!: visualize_data_event
          simp: chart_calls_def line_chart_def bar_chart_def histogram_def scatter_plot_def
          split: if_splits)
  have all: "(PrintHead d \<in> set (events_since w (snd (main w))) \<longrightarrow>
           (\<exists>df. r = Inr (Some df) \<and> \<not> empty df \<and> d = head df)) \<and>
        (PrintDescribe d \<in> set (events_since w (snd (main w))) \<longrightarrow>
           (\<exists>df. r = Inr (Some df) \<and> \<not> empty df \<and> d = fst (explore_data df w1))) \<and>
        (Plt (Scatterplot x y h d p) \<in> set (events_since w (snd (main w))) \<longrightarrow>
           (\<exists>df. r = Inr (Some df) \<and> \<not> empty df \<and> d = fst (explore_data df w1)))"
  proof (cases w rule: main_cases)
    case (load_error e w1')
    with assms have "r = Inl e" "w1' = w1" by simp_all
    with load_error ld show ?thesis
      by (simp add: main_stop_events [OF load_error])
  next
    case (empty df w1')
    with assms have "r = Inr (Some df)" "w1' = w1" by simp_all
    with empty ld show ?thesis
      by (simp add: main_empty_events [OF empty])
  next
    case (run df w1')
    with assms have r: "r = Inr (Some df)" "w1' = w1" by simp_all
    from run r ld vd show ?thesis
      by (auto simp: main_run_events [OF run refl refl refl] explore_data_events
            basic_analysis_events explore_data_result split: if_splits)
  qed
  from all show "PrintHead d \<in> set (events_since w (snd (main w))) \<Longrightarrow>
           \<exists>df. r = Inr (Some df) \<and> \<not> empty df \<and> d = head df"
    and "PrintDescribe d \<in> set (events_since w (snd (main w))) \<Longrightarrow>
           \<exists>df. r = Inr (Some df) \<and> \<not> empty df \<and> d = fst (explore_data df w1)"
    and "Plt (Scatterplot x y h d p) \<in> set (events_since w (snd (main w))) \<Longrightarrow>
           \<exists>df. r = Inr (Some df) \<and> \<not> empty df \<and> d = fst (explore_data df w1)"
    by blast+
qed

text \<open>
  C5. In every run \<^verbatim>\<open>main\<close> goes through its steps in the order load, clean, describe,
  plot, each at most once: the steps that show in the events of a run are a beginning of
  this list, and the load step is always among them. A run in which \<^verbatim>\<open>load_dataset\<close> raises
  or returns an empty dataframe is the load step alone. In every other run the events are
  those of \<^verbatim>\<open>load_dataset\<close>, then those of \<^verbatim>\<open>explore_data\<close> on the dataframe that
  \<^verbatim>\<open>load_dataset\<close> returned, then those of \<^verbatim>\<open>basic_analysis\<close> on the dataframe that
  \<^verbatim>\<open>explore_data\<close> returned, then, unless \<^verbatim>\<open>basic_analysis\<close> raised, those of
  \<^verbatim>\<open>visualize_data\<close> on that same dataframe (\<^verbatim>\<open>basic_analysis\<close> returns none), and the
  closing message if \<^verbatim>\<open>visualize_data\<close> returned. Seen from the events: the head that is
  printed is the head of the loaded dataframe, and the dataframe that is described and the
  dataframe of the scatter plot are the one that \<^verbatim>\<open>explore_data\<close> returned.
\<close>

theorem main_steps_in_order:
  "prefix (steps (events_since w (snd (main w)))) [LoadStep, CleanStep, DescribeStep, PlotStep] \<and>
   LoadStep \<in> set (steps (events_since w (snd (main w)))) \<and>
   (\<forall>e w1. load_dataset (print_str welcome_msg w) = (Inl e, w1) \<longrightarrow>
      events_since w (snd (main w)) =
        Print welcome_msg # events_since (print_str welcome_msg w) w1 \<and>
      steps (events_since w (snd (main w))) = [LoadStep]) \<and>
   (\<forall>df w1. load_dataset (print_str welcome_msg w) = (Inr (Some df), w1) \<and> empty df \<longrightarrow>
      events_since w (snd (main w)) =
        Print welcome_msg # events_since (print_str welcome_msg w) w1 @ [Print no_dataset_msg] \<and>
      steps (events_since w (snd (main w))) = [LoadStep]) \<and>
   (\<forall>df w1. load_dataset (print_str welcome_msg w) = (Inr (Some df), w1) \<and> \<not> empty df \<longrightarrow>
      (let (df1, w2) = explore_data df w1;
           (b, w3) = basic_analysis df1 w2;
           (v, w4) = visualize_data df1 w3
       in events_since w (snd (main w)) =
            Print welcome_msg # events_since (print_str welcome_msg w) w1 @
            events_since w1 w2 @ events_since w2 w3 @
            (if b = Inr ()
             then events_since w3 w4 @ (if v = Inr () then [Print complete_msg] else [])
             else []) \<and>
          steps (events_since w (snd (main w))) =
            LoadStep # CleanStep # DescribeStep #
            (if b = Inr () \<and> events_since w3 w4 \<noteq> [] then [PlotStep] else []))) \<and>
   (\<forall>r w1 d. load_dataset (print_str welcome_msg w) = (r, w1) \<and>
        PrintHead d \<in> set (events_since w (snd (main w))) \<longrightarrow>
      (\<exists>df. r = Inr (Some df) \<and> \<not> empty df \<and> d = head df)) \<and>
   (\<forall>r w1 d. load_dataset (print_str welcome_msg w) = (r, w1) \<and>
        PrintDescribe d \<in> set (events_since w (snd (main w))) \<longrightarrow>
      (\<exists>df. r = Inr (Some df) \<and> \<not> empty df \<and> d = fst (explore_data df w1))) \<and>
   (\<forall>r w1 x y h d p. load_dataset (print_str welcome_msg w) = (r, w1) \<and>
        Plt (Scatterplot x y h d p) \<in> set (events_since w (snd (main w))) \<longrightarrow>
      (\<exists>df. r = Inr (Some df) \<and> \<not> empty df \<and> d = fst (explore_data df w1)))"
proof (intro conjI allI impI)
  show "prefix (steps (events_since w (snd (main w)))) [LoadStep, CleanStep, DescribeStep, PlotStep]"
    by (rule main_steps_prefix)
  show "LoadStep \<in> set (steps (events_since w (snd (main w))))"
    by (rule main_steps_prefix)
next
  fix e w1
  assume l: "load_dataset (print_str welcome_msg w) = (Inl e, w1)"
  show "events_since w (snd (main w)) = Print welcome_msg # events_since (print_str welcome_msg w) w1"
    by (rule main_stop_events [OF l])
  from main_steps [of w] l show "steps (events_since w (snd (main w))) = [LoadStep]"
    by blast
next
  fix df w1
  assume a: "load_dataset (print_str welcome_msg w) = (Inr (Some df), w1) \<and> empty df"
  then show "events_since w (snd (main w)) =
        Print welcome_msg # events_since (print_str welcome_msg w) w1 @ [Print no_dataset_msg]"
    using main_empty_events [of w df w1] by blast
  from main_steps [of w] a show "steps (events_since w (snd (main w))) = [LoadStep]"
    by blast
next
  fix df w1
  assume a: "load_dataset (print_str welcome_msg w) = (Inr (Some df), w1) \<and> \<not> empty df"
  then have l: "load_dataset (print_str welcome_msg w) = (Inr (Some df), w1)" and e: "\<not> empty df"
    by simp_all
  from main_steps [of w] a
  have s: "steps (events_since w (snd (main w))) =
        LoadStep # CleanStep # DescribeStep #
        (if fst (basic_analysis (dropna df) (snd (explore_data df w1))) = Inr () \<and>
            events_since (snd (basic_analysis (dropna df) (snd (explore_data df w1))))
              (snd (visualize_data (dropna df)
                      (snd (basic_analysis (dropna df) (snd (explore_data df w1)))))) \<noteq> []
         then [PlotStep] else [])"
    by blast
  show "let (df1, w2) = explore_data df w1;
           (b, w3) = basic_analysis df1 w2;
           (v, w4) = visualize_data df1 w3
       in events_since w (snd (main w)) =
            Print welcome_msg # events_since (print_str welcome_msg w) w1 @
            events_since w1 w2 @ events_since w2 w3 @
            (if b = Inr ()
             then events_since w3 w4 @ (if v = Inr () then [Print complete_msg] else [])
             else []) \<and>
          steps (events_since w (snd (main w))) =
            LoadStep # CleanStep # DescribeStep #
            (if b = Inr () \<and> events_since w3 w4 \<noteq> [] then [PlotStep] else [])"
    unfolding Let_def case_prod_beta explore_data_result
    using main_run_events [OF l e refl refl refl] s by blast
next
  fix r w1 d
  assume "load_dataset (print_str welcome_msg w) = (r, w1) \<and>
        PrintHead d \<in> set (events_since w (snd (main w)))"
  then show "\<exists>df. r = Inr (Some df) \<and> \<not> empty df \<and> d = head df"
    using main_data_flow(1) by blast
next
  fix r w1 d
  assume "load_dataset (print_str welcome_msg w) = (r, w1) \<and>
        PrintDescribe d \<in> set (events_since w (snd (main w)))"
  then show "\<exists>df. r = Inr (Some df) \<and> \<not> empty df \<and> d = fst (explore_data df w1)"
    using main_data_flow(2) by blast
next
  fix r w1 x y h d p
  assume "load_dataset (print_str welcome_msg w) = (r, w1) \<and>
        Plt (Scatterplot x y h d p) \<in> set (events_since w (snd (main w)))"
  then show "\<exists>df. r = Inr (Some df) \<and> \<not> empty df \<and> d = fst (explore_data df w1)"
    using main_data_flow(3) by blast
qed

theorem main_steps_in_order_witness:
  "\<not> empty people \<and>
   steps (events_since (sample_world [''people.csv''])
            (snd (main (sample_world [''people.csv''])))) =
     [LoadStep, CleanStep, DescribeStep, PlotStep] \<and>
   empty header_only \<and>
   steps (events_since (sample_world [''header.csv''])
            (snd (main (sample_world [''header.csv''])))) = [LoadStep] \<and>
   steps (events_since (sample_world []) (snd (main (sample_world [])))) = [LoadStep]"
proof -
  note p = main_steps_in_order [of "sample_world [''people.csv'']"]
  note h = main_steps_in_order [of "sample_world [''header.csv'']"]
  note n = main_steps_in_order [of "sample_world []"]
  let ?w1 = "(sample_world [])\<lparr>trace := [Print welcome_msg, Print question_msg, Input prompt_msg,
                  PathExists ''people.csv'', ReadCsv ''people.csv'',
                  Print (loaded_msg ''people.csv'')]\<rparr>"
  from p load_people empty_samples(2)
  have "let (df1, w2) = explore_data people ?w1;
           (b, w3) = basic_analysis df1 w2;
           (v, w4) = visualize_data df1 w3
       in events_since (sample_world [''people.csv'']) (snd (main (sample_world [''people.csv'']))) =
            Print welcome_msg #
            events_since (print_str welcome_msg (sample_world [''people.csv''])) ?w1 @
            events_since ?w1 w2 @ events_since w2 w3 @
            (if b = Inr ()
             then events_since w3 w4 @ (if v = Inr () then [Print complete_msg] else [])
             else []) \<and>
          steps (events_since (sample_world [''people.csv''])
                   (snd (main (sample_world [''people.csv''])))) =
            LoadStep # CleanStep # DescribeStep #
            (if b = Inr () \<and> events_since w3 w4 \<noteq> [] then [PlotStep] else [])"
    by blast
  then have "steps (events_since (sample_world [''people.csv''])
            (snd (main (sample_world [''people.csv''])))) =
     LoadStep # CleanStep # DescribeStep #
     (if fst (basic_analysis (dropna people) (snd (explore_data people ?w1))) = Inr () \<and>
         events_since (snd (basic_analysis (dropna people) (snd (explore_data people ?w1))))
           (snd (visualize_data (dropna people)
                   (snd (basic_analysis (dropna people) (snd (explore_data people ?w1)))))) \<noteq> []
      then [PlotStep] else [])"
    unfolding Let_def case_prod_beta explore_data_result
    by (rule conjunct2)
  then have a: "steps (events_since (sample_world [''people.csv''])
            (snd (main (sample_world [''people.csv''])))) =
     [LoadStep, CleanStep, DescribeStep, PlotStep]"
    by (simp only: main_people visualize_data_returned simp_thms if_True)
  from h load_header empty_samples(1)
  have b: "steps (events_since (sample_world [''header.csv''])
            (snd (main (sample_world [''header.csv''])))) = [LoadStep]"
    by blast
  have "load_dataset (print_str welcome_msg (sample_world [])) =
      (Inl EOFError,
       (print_str welcome_msg (sample_world []))\<lparr>trace :=
          trace (print_str welcome_msg (sample_world [])) @
          [Print question_msg, Input prompt_msg]\<rparr>)"
    by (rule load_dataset_eof) simp
  with n have c: "steps (events_since (sample_world []) (snd (main (sample_world [])))) = [LoadStep]"
    by blast
  from a b c empty_samples show ?thesis
    by blast
qed

text \<open>
  C7, as the code has it. In every run \<^verbatim>\<open>input\<close> is called exactly once, with the prompt
  of \<^verbatim>\<open>load_dataset\<close>, whichever path the run takes afterwards. \<^verbatim>\<open>os.path.exists\<close> and
  \<^verbatim>\<open>pd.read_csv\<close> are called at most once each. \<^verbatim>\<open>load_iris\<close> is called at most twice,
  and twice in one case: the path that the user gave does not exist and
  \<^verbatim>\<open>load_iris_dataset\<close>, called for it inside the \<^verbatim>\<open>try\<close> block, raises; the handler then
  calls \<^verbatim>\<open>load_iris_dataset\<close> again.
\<close>

theorem main_prompts_once:
  "filter is_input (events_since w (snd (main w))) = [Input prompt_msg] \<and>
   length (filter is_path_exists (events_since w (snd (main w)))) \<le> 1 \<and>
   length (filter is_read_csv (events_since w (snd (main w)))) \<le> 1 \<and>
   length (filter is_load_iris (events_since w (snd (main w)))) \<le> 2 \<and>
   (length (filter is_load_iris (events_since w (snd (main w)))) = 2 \<longleftrightarrow>
      (\<exists>line rest x. stdin w = line # rest \<and> strip line \<noteq> [] \<and> files w (strip line) = None \<and>
         species_frame (sklearn_iris w) = Inl x))"
proof -
  let ?w0 = "print_str welcome_msg w"
  let ?l = "events_since ?w0 (snd (load_dataset ?w0))"
  have f: "filter P (events_since w (snd (main w))) = filter P ?l"
    if "\<And>s. \<not> P (Print s)" "\<And>d. \<not> P (PrintHead d)" "\<And>d. \<not> P (PrintDtypes d)"
      "\<And>d. \<not> P (PrintNullCounts d)" "\<And>d. \<not> P (PrintDescribe d)"
      "\<And>g d. \<not> P (PrintGroupMean g d)" "\<And>c. \<not> P (Plt c)" for P
  proof -
    have v: "filter P (events_since w3 (snd (visualize_data df w3))) = []" for df w3
      by (rule filter_none, drule visualize_data_event) (auto simp: that)
    show ?thesis
    proof (cases w rule: main_cases)
      case (load_error e w1)
      then show ?thesis
        by (simp add: main_stop_events [OF load_error] that)
    next
      case (empty df w1)
      then show ?thesis
        by (simp add: main_empty_events [OF empty] that)
    next
      case (run df w1)
      then show ?thesis
        by (simp add: main_run_events [OF run refl refl refl] explore_data_events
              basic_analysis_events v that)
    qed
  qed
  have i: "filter is_input (events_since w (snd (main w))) = filter is_input ?l"
    by (rule f) simp_all
  have p: "filter is_path_exists (events_since w (snd (main w))) = filter is_path_exists ?l"
    by (rule f) simp_all
  have r: "filter is_read_csv (events_since w (snd (main w))) = filter is_read_csv ?l"
    by (rule f) simp_all
  have s: "filter is_load_iris (events_since w (snd (main w))) = filter is_load_iris ?l"
    by (rule f) simp_all
  show ?thesis
    unfolding i p r s
    using load_dataset_inputs [of ?w0] load_dataset_path_exists [of ?w0]
      load_dataset_read_csv [of ?w0] load_dataset_load_iris [of ?w0]
      load_dataset_load_iris_twice [of ?w0]
    by simp
qed

theorem main_prompts_once_witness:
  "filter is_input (events_since (sample_world [''missing.csv''])
                      (snd (main (sample_world [''missing.csv''])))) = [Input prompt_msg] \<and>
   length (filter is_load_iris (events_since (sample_world [''missing.csv''])
                      (snd (main (sample_world [''missing.csv'']))))) \<noteq> 2 \<and>
   species_frame (sklearn_iris (sample_world [''missing.csv''])) = Inr iris_sample_species"
  using main_prompts_once [of "sample_world [''missing.csv'']"]
  by (simp add: species_frame_iris_sample)

text \<open>
  C7 as stated fails: where the Iris frame has no \<^verbatim>\<open>target\<close> column and the path does not
  exist, \<^verbatim>\<open>load_iris_dataset\<close> fails in line 28 and is called a second time by the handler,
  so that \<^verbatim>\<open>load_iris\<close> runs twice in one run.
\<close>

theorem main_retry_counterexample:
  "filter is_load_iris (events_since (broken_world [''missing.csv''])
                          (snd (main (broken_world [''missing.csv''])))) = [LoadIris, LoadIris] \<and>
   fst (main (broken_world [''missing.csv''])) = Inl (KeyError ''target'')"
proof -
  have l: "load_dataset (print_str welcome_msg (broken_world [''missing.csv''])) =
     (Inl (KeyError ''target''),
      (print_str welcome_msg (broken_world [''missing.csv'']))\<lparr>stdin := [],
         trace := trace (print_str welcome_msg (broken_world [''missing.csv''])) @
           [Print question_msg, Input prompt_msg,
            PathExists ''missing.csv'', Print (file_not_found_msg ''missing.csv''),
            LoadIris, Print (error_loading_msg (KeyError ''target'')), LoadIris]\<rparr>)"
    using load_dataset_not_found [of "print_str welcome_msg (broken_world [''missing.csv''])"
        "''missing.csv''" "[]"]
    by (simp add: strip_missing sample_files_lookup species_frame_broken_iris)
  show ?thesis
    by (simp add: main_stop_events [OF l] main_load_error [OF l] events_since_def)
qed

end
